theory Spec2Isabelle
  imports Complex_Main "HOL-Library.AList" "HOL-Library.Sublist" "HOL-Library.Char_ord"
    "HOL-Library.List_Lexorder" "HOL-Library.Multiset"
begin

section \<open>Numbers and strings\<close>

text \<open>
  JavaScript numbers are modelled as exact rationals. Rounding errors, infinities and
  overflow of IEEE doubles are outside the model. In the calculation a numeric field of a
  material stands for what \<open>parseFloat\<close> makes of it: \<open>Some v\<close> when that is the
  number \<open>v\<close>, \<open>None\<close> when the field is absent, \<open>null\<close> or does not parse. Strings
  are byte strings; case folding acts on the ASCII letters, as SQLite's \<open>LOWER\<close> does. The
  material type of a material is a string, and the categories of the factor table are
  ordinary names: none is an integer or the name of a property that every JavaScript object
  inherits, so that the keys of the category breakdown are kept in the order of their first
  use.
\<close>

type_synonym num = rat

definition parseFloat_or0 :: "num option \<Rightarrow> num" where
  \<comment> \<open>\<open>parseFloat(x) || 0\<close>: a field that does not parse becomes 0\<close>
  "parseFloat_or0 x = (case x of None \<Rightarrow> 0 | Some v \<Rightarrow> v)"

definition Math_round :: "num \<Rightarrow> int" where
  \<comment> \<open>\<open>Math.round\<close>: nearest integer, a tie goes up\<close>
  "Math_round x = \<lfloor>x + 1 / 2\<rfloor>"

definition round2 :: "num \<Rightarrow> num" where
  \<comment> \<open>\<open>Math.round(x * 100) / 100\<close>\<close>
  "round2 x = of_int (Math_round (x * 100)) / 100"

definition toLowerCase_char :: "char \<Rightarrow> char" where
  "toLowerCase_char c =
     (if 65 \<le> (of_char c :: nat) \<and> (of_char c :: nat) \<le> 90
      then char_of ((of_char c :: nat) + 32) else c)"

definition toLowerCase :: "string \<Rightarrow> string" where
  "toLowerCase s = map toLowerCase_char s"

fun starts_with :: "string \<Rightarrow> string \<Rightarrow> bool" where
  "starts_with s [] = True"
| "starts_with [] (k # ks) = False"
| "starts_with (c # cs) (k # ks) = (c = k \<and> starts_with cs ks)"

fun str_includes :: "string \<Rightarrow> string \<Rightarrow> bool" where
  \<comment> \<open>\<open>s.includes(k)\<close>: \<open>k\<close> occurs in \<open>s\<close> as a contiguous substring\<close>
  "str_includes [] k = (k = [])"
| "str_includes (c # cs) k = (starts_with (c # cs) k \<or> str_includes cs k)"

fun digit_char :: "nat \<Rightarrow> char" where
  "digit_char n = char_of (48 + n)"

fun show_nat :: "nat \<Rightarrow> string" where
  "show_nat n = (if n < 10 then [digit_char n] else show_nat (n div 10) @ [digit_char (n mod 10)])"

definition show_int :: "int \<Rightarrow> string" where
  \<comment> \<open>the decimal text of an integer in a template literal (below \<open>10^21\<close> in size)\<close>
  "show_int i = (if i < 0 then CHR ''-'' # show_nat (nat (- i)) else show_nat (nat i))"

section \<open>The emission factor table\<close>

record emission_factor =
  ef_material_type :: string
  ef_category :: string
  ef_co2_factor :: num
  ef_energy_factor :: num
  ef_transport_factor :: num
  ef_unit :: string
  ef_source :: string

definition mk_factor :: "string \<Rightarrow> string \<Rightarrow> num \<Rightarrow> num \<Rightarrow> num \<Rightarrow> string \<Rightarrow> string \<Rightarrow> emission_factor" where
  "mk_factor t c co2 en tr u s =
     \<lparr>ef_material_type = t, ef_category = c, ef_co2_factor = co2, ef_energy_factor = en,
      ef_transport_factor = tr, ef_unit = u, ef_source = s\<rparr>"

definition defaultFactors :: "emission_factor list" where
  "defaultFactors =
    [mk_factor ''Steel'' ''Metals'' (185 / 100) 24 (1 / 10) ''kg'' ''Industry Average'',
     mk_factor ''Aluminum'' ''Metals'' (824 / 100) 154 (1 / 10) ''kg'' ''Industry Average'',
     mk_factor ''Copper'' ''Metals'' (295 / 100) 42 (1 / 10) ''kg'' ''Industry Average'',
     mk_factor ''PET Plastic'' ''Plastics'' (225 / 100) 76 (5 / 100) ''kg'' ''PlasticsEurope'',
     mk_factor ''HDPE'' ''Plastics'' (195 / 100) (767 / 10) (5 / 100) ''kg'' ''PlasticsEurope'',
     mk_factor ''PVC'' ''Plastics'' (241 / 100) (575 / 10) (5 / 100) ''kg'' ''PlasticsEurope'',
     mk_factor ''Concrete'' ''Construction'' (13 / 100) 1 (2 / 100) ''kg'' ''Cement Association'',
     mk_factor ''Brick'' ''Construction'' (24 / 100) 3 (3 / 100) ''kg'' ''Building Research'',
     mk_factor ''Wood'' ''Construction'' (- (9 / 10)) (25 / 10) (4 / 100) ''kg'' ''Forest Products'',
     mk_factor ''Glass'' ''Glass'' (85 / 100) 15 (8 / 100) ''kg'' ''Glass Manufacturing'',
     mk_factor ''Ceramic'' ''Ceramics'' (64 / 100) 12 (6 / 100) ''kg'' ''Ceramic Industry'',
     mk_factor ''Cotton'' ''Textiles'' (589 / 100) 55 (3 / 100) ''kg'' ''Textile Exchange'',
     mk_factor ''Polyester'' ''Textiles'' (952 / 100) 125 (3 / 100) ''kg'' ''Textile Exchange'',
     mk_factor ''Silicon'' ''Electronics'' (13 / 10) 230 (1 / 10) ''kg'' ''Semiconductor Industry'',
     mk_factor ''Gold'' ''Electronics'' 12800 240000 (2 / 10) ''kg'' ''Mining Industry'',
     mk_factor ''Paper'' ''Paper'' (93 / 100) 20 (4 / 100) ''kg'' ''Paper Industry'',
     mk_factor ''Cardboard'' ''Paper'' (7 / 10) 15 (4 / 100) ''kg'' ''Paper Industry'']"

definition insert_factor :: "emission_factor \<Rightarrow> emission_factor list \<Rightarrow> emission_factor list" where
  \<comment> \<open>one round of the seeding loop: insert unless a row with this type and category exists\<close>
  "insert_factor f table =
     (case find (\<lambda>r. ef_material_type r = ef_material_type f \<and> ef_category r = ef_category f) table of
        Some existing \<Rightarrow> table
      | None \<Rightarrow> table @ [f])"

definition insertDefaultEmissionFactors :: "emission_factor list \<Rightarrow> emission_factor list" where
  "insertDefaultEmissionFactors table = fold insert_factor defaultFactors table"

definition seeded_table :: "emission_factor list" where
  \<comment> \<open>the table of a freshly initialised database, in row order\<close>
  "seeded_table = insertDefaultEmissionFactors []"

section \<open>Queries on the emission factor table\<close>

text \<open>
  The table is the list of its rows in row order; \<open>database.get\<close> returns the first row
  of the result, or nothing. \<open>ORDER BY material_type\<close> compares byte by byte; rows with
  the same material type stay in row order.
\<close>

definition get_exact :: "emission_factor list \<Rightarrow> string \<Rightarrow> emission_factor option" where
  \<comment> \<open>\<open>SELECT * FROM emission_factors WHERE LOWER(material_type) = LOWER(?)\<close>\<close>
  "get_exact table name = find (\<lambda>r. toLowerCase (ef_material_type r) = toLowerCase name) table"

fun like_match :: "string \<Rightarrow> string \<Rightarrow> bool" where
  \<comment> \<open>SQLite's \<open>text LIKE pattern\<close>, pattern first: \<open>%\<close> is any run of characters, \<open>_\<close> is any
     one character, letters compare without case\<close>
  "like_match [] s = (s = [])"
| "like_match (p # ps) [] = (p = CHR ''%'' \<and> like_match ps [])"
| "like_match (p # ps) (c # cs) =
     (if p = CHR ''%'' then like_match ps (c # cs) \<or> like_match (p # ps) cs
      else (p = CHR ''_'' \<or> toLowerCase_char p = toLowerCase_char c) \<and> like_match ps cs)"

definition get_partial :: "emission_factor list \<Rightarrow> string \<Rightarrow> emission_factor option" where
  \<comment> \<open>\<open>SELECT * FROM emission_factors WHERE LOWER(material_type) LIKE LOWER(?)
     ORDER BY material_type LIMIT 1\<close> with the parameter \<open>%name%\<close>\<close>
  "get_partial table name =
     (case sort_key ef_material_type
             (filter (\<lambda>r. like_match (toLowerCase (CHR ''%'' # name @ [CHR ''%'']))
                                     (toLowerCase (ef_material_type r))) table) of
        [] \<Rightarrow> None
      | r # rest \<Rightarrow> Some r)"

section \<open>POST /api/lca/calculate: the loop over the materials\<close>

record material_input =
  m_material_type :: string
  m_quantity :: "num option"
  m_unit :: "string option"
  m_energy_consumption :: "num option"
  m_transport_distance :: "num option"

record factor_set =
  co2_factor :: num
  energy_factor :: num
  transport_factor :: num
  category :: string

definition factors_of :: "emission_factor \<Rightarrow> factor_set" where
  "factors_of r =
     \<lparr>co2_factor = ef_co2_factor r, energy_factor = ef_energy_factor r,
      transport_factor = ef_transport_factor r, category = ef_category r\<rparr>"

definition default_factors :: factor_set where
  "default_factors =
     \<lparr>co2_factor = 1, energy_factor = 10, transport_factor = 5 / 100, category = ''Unknown''\<rparr>"

definition unknown_warning :: "string \<Rightarrow> string" where
  "unknown_warning t = ''Unknown material: '' @ t @ ''. Using estimated factors.''"

definition calc_emission_factor :: "emission_factor list \<Rightarrow> string \<Rightarrow> factor_set \<times> string list" where
  \<comment> \<open>the factors used by the calculation for one material type, and the warnings pushed\<close>
  "calc_emission_factor table t =
     (case get_exact table t of
        Some r \<Rightarrow> (factors_of r, [])
      | None \<Rightarrow> (default_factors, [unknown_warning t]))"

record material_impact =
  b_material_type :: string
  b_category :: string
  b_quantity :: num
  b_unit :: string
  b_co2_impact :: num
  b_energy_impact :: num
  b_transport_impact :: num
  b_total_impact :: num

record category_totals =
  c_co2 :: num
  c_energy :: num
  c_materials :: num
  c_count :: nat

record calc_state =
  totalCO2 :: num
  totalEnergy :: num
  totalMaterials :: num
  materialBreakdown :: "material_impact list"
  categoryBreakdown :: "(string \<times> category_totals) list"
  warnings :: "string list"

definition initial_state :: calc_state where
  "initial_state =
     \<lparr>totalCO2 = 0, totalEnergy = 0, totalMaterials = 0, materialBreakdown = [],
      categoryBreakdown = [], warnings = []\<rparr>"

definition unit_or_kg :: "string option \<Rightarrow> string" where
  \<comment> \<open>\<open>material.unit || 'kg'\<close>: an absent or empty unit is \<open>kg\<close>\<close>
  "unit_or_kg u = (case u of None \<Rightarrow> ''kg'' | Some s \<Rightarrow> if s = [] then ''kg'' else s)"

definition ensure_category :: "string \<Rightarrow> (string \<times> category_totals) list \<Rightarrow> (string \<times> category_totals) list" where
  \<comment> \<open>a category seen for the first time gets an entry of zeros, after the entries present\<close>
  "ensure_category c cb =
     (case map_of cb c of
        None \<Rightarrow> AList.update c \<lparr>c_co2 = 0, c_energy = 0, c_materials = 0, c_count = 0\<rparr> cb
      | Some e \<Rightarrow> cb)"

definition add_to_category :: "num \<Rightarrow> num \<Rightarrow> num \<Rightarrow> category_totals \<Rightarrow> category_totals" where
  "add_to_category co2 en q e =
     e\<lparr>c_co2 := c_co2 e + co2, c_energy := c_energy e + en,
       c_materials := c_materials e + q, c_count := c_count e + 1\<rparr>"

definition calc_step :: "emission_factor list \<Rightarrow> calc_state \<Rightarrow> material_input \<Rightarrow> calc_state" where
  \<comment> \<open>one round of the loop \<open>for (const material of materials)\<close>\<close>
  "calc_step table st material =
     (let quantity = parseFloat_or0 (m_quantity material);
          energyConsumption = parseFloat_or0 (m_energy_consumption material);
          transportDistance = parseFloat_or0 (m_transport_distance material);
          (emissionFactor, ws) = calc_emission_factor table (m_material_type material);
          co2Impact = quantity * co2_factor emissionFactor;
          energyImpact = quantity * energy_factor emissionFactor + energyConsumption;
          transportImpact = transportDistance * transport_factor emissionFactor * quantity
      in \<lparr>totalCO2 = totalCO2 st + (co2Impact + transportImpact * (1 / 10)),
          totalEnergy = totalEnergy st + energyImpact,
          totalMaterials = totalMaterials st + quantity,
          materialBreakdown = materialBreakdown st @
            [\<lparr>b_material_type = m_material_type material,
              b_category = category emissionFactor,
              b_quantity = quantity,
              b_unit = unit_or_kg (m_unit material),
              b_co2_impact = co2Impact,
              b_energy_impact = energyImpact,
              b_transport_impact = transportImpact,
              b_total_impact = co2Impact + energyImpact + transportImpact\<rparr>],
          categoryBreakdown =
            AList.map_entry (category emissionFactor) (add_to_category co2Impact energyImpact quantity)
              (ensure_category (category emissionFactor) (categoryBreakdown st)),
          warnings = warnings st @ ws\<rparr>)"

definition calc_loop :: "emission_factor list \<Rightarrow> material_input list \<Rightarrow> calc_state" where
  "calc_loop table materials = foldl (calc_step table) initial_state materials"

section \<open>Recommendations\<close>

record recommendation =
  r_type :: string
  r_priority :: string
  r_title :: string
  r_description :: string
  r_action :: string

definition sort_by_impact :: "material_impact list \<Rightarrow> material_impact list" where
  \<comment> \<open>\<open>sort((a, b) => b.total_impact - a.total_impact)\<close>: stable, largest first\<close>
  "sort_by_impact mb = sort_key (\<lambda>m. - b_total_impact m) mb"

definition sort_by_co2 :: "(string \<times> category_totals) list \<Rightarrow> (string \<times> category_totals) list" where
  \<comment> \<open>\<open>Object.entries(categoryBreakdown).sort((a, b) => b[1].co2 - a[1].co2)\<close>\<close>
  "sort_by_co2 cb = sort_key (\<lambda>e. - c_co2 (snd e)) cb"

definition high_impact_rule :: "material_impact list \<Rightarrow> recommendation list" where
  "high_impact_rule sortedMaterials =
     (case sortedMaterials of
        [] \<Rightarrow> []
      | highestImpact # rest \<Rightarrow>
          if b_total_impact highestImpact > 100
          then [\<lparr>r_type = ''high_impact'', r_priority = ''high'',
                 r_title = ''Optimize '' @ b_material_type highestImpact @ '' usage'',
                 r_description = b_material_type highestImpact @ '' contributes '' @
                   show_int (Math_round (b_total_impact highestImpact)) @
                   '' units to total impact. Consider alternatives or reduce quantity.'',
                 r_action = ''material_substitution''\<rparr>]
          else [])"

definition category_rule :: "(string \<times> category_totals) list \<Rightarrow> recommendation list" where
  "category_rule cb =
     (case sort_by_co2 cb of
        [] \<Rightarrow> []
      | (topCategory, topCategoryData) # rest \<Rightarrow>
          if c_co2 topCategoryData > 50
          then [\<lparr>r_type = ''category_optimization'', r_priority = ''medium'',
                 r_title = ''Focus on '' @ topCategory @ '' materials'',
                 r_description = topCategory @ '' category accounts for '' @
                   show_int (Math_round (c_co2 topCategoryData)) @
                   '' kg CO2. This category has the highest environmental impact.'',
                 r_action = ''category_review''\<rparr>]
          else [])"

definition energy_rule :: "material_impact list \<Rightarrow> recommendation list" where
  "energy_rule mb =
     (let energySum = foldl (\<lambda>sum m. sum + b_energy_impact m) 0 mb
      in if energySum > 1000
         then [\<lparr>r_type = ''energy_efficiency'', r_priority = ''medium'',
                r_title = ''Improve energy efficiency'',
                r_description = ''Total energy consumption is '' @ show_int (Math_round energySum) @
                  '' MJ. Consider renewable energy sources or more efficient processes.'',
                r_action = ''energy_optimization''\<rparr>]
         else [])"

definition transport_rule :: "material_impact list \<Rightarrow> recommendation list" where
  "transport_rule mb =
     (let highTransportMaterials = filter (\<lambda>m. b_transport_impact m > 10) mb
      in if length highTransportMaterials > 0
         then [\<lparr>r_type = ''transport_optimization'', r_priority = ''low'',
                r_title = ''Optimize transportation'',
                r_description = show_nat (length highTransportMaterials) @
                  '' materials have high transport impact. Consider local sourcing or more efficient logistics.'',
                r_action = ''transport_optimization''\<rparr>]
         else [])"

definition general_recommendation :: recommendation where
  "general_recommendation =
     \<lparr>r_type = ''general'', r_priority = ''low'',
      r_title = ''Consider circular economy principles'',
      r_description = ''Explore recycling, reuse, and sustainable material alternatives to reduce overall environmental impact.'',
      r_action = ''circular_economy''\<rparr>"

definition generateRecommendations ::
  "material_impact list \<Rightarrow> (string \<times> category_totals) list \<Rightarrow> recommendation list \<times> material_impact list" where
  \<comment> \<open>returns the recommendations and the array \<open>materialBreakdown\<close> as the call leaves it:
     \<open>Array.prototype.sort\<close> sorts the caller's array in place\<close>
  "generateRecommendations mb cb =
     (let sortedMaterials = sort_by_impact mb
      in (high_impact_rule sortedMaterials @ category_rule cb @
          energy_rule sortedMaterials @ transport_rule sortedMaterials @ [general_recommendation],
          sortedMaterials))"

section \<open>Scores\<close>

record scores =
  s_overall :: int
  s_co2 :: int
  s_energy :: int
  s_materials :: int
  s_grade :: string

definition getEnvironmentalGrade :: "num \<Rightarrow> string" where
  "getEnvironmentalGrade score =
     (if score \<ge> 90 then ''A+''
      else if score \<ge> 80 then ''A''
      else if score \<ge> 70 then ''B''
      else if score \<ge> 60 then ''C''
      else if score \<ge> 50 then ''D''
      else ''F'')"

definition co2Score :: "num \<Rightarrow> num" where
  "co2Score co2 = max 0 (100 - co2 / 10)"

definition energyScore :: "num \<Rightarrow> num" where
  "energyScore energy = max 0 (100 - energy / 100)"

definition materialScore :: "num \<Rightarrow> num" where
  "materialScore materials = max 0 (100 - materials / 50)"

definition overallScore :: "num \<Rightarrow> num \<Rightarrow> num \<Rightarrow> num" where
  "overallScore co2 energy materials = (co2Score co2 + energyScore energy + materialScore materials) / 3"

definition calculateEnvironmentalScores :: "num \<Rightarrow> num \<Rightarrow> num \<Rightarrow> scores" where
  "calculateEnvironmentalScores co2 energy materials =
     \<lparr>s_overall = Math_round (overallScore co2 energy materials),
      s_co2 = Math_round (co2Score co2),
      s_energy = Math_round (energyScore energy),
      s_materials = Math_round (materialScore materials),
      s_grade = getEnvironmentalGrade (overallScore co2 energy materials)\<rparr>"

section \<open>Persistence\<close>

text \<open>
  The two tables written by the calculation, without their timestamp columns. A statement
  that the database refuses makes \<open>database.run\<close> throw; which statements are refused
  (a violated constraint, a failing disk) is the parameter \<open>refuses\<close>.
\<close>

record assessment_row =
  a_id :: nat
  a_name :: string
  a_description :: string
  a_total_co2 :: num
  a_total_energy :: num
  a_total_materials :: num

record assessment_material_row =
  am_id :: nat
  am_assessment_id :: nat
  am_material_type :: string
  am_quantity :: num
  am_unit :: string
  am_energy_consumption :: num
  am_transport_distance :: num
  am_co2_impact :: num
  am_energy_impact :: num
  am_category :: string

record database =
  lca_assessments :: "assessment_row list"
  assessment_materials :: "assessment_material_row list"
  lca_assessments_seq :: nat
  assessment_materials_seq :: nat

datatype statement =
  InsertAssessment string string num num num
| InsertMaterial nat string num string num num num num string

fun execute :: "database \<Rightarrow> statement \<Rightarrow> database \<times> nat" where
  \<comment> \<open>the row is appended under the next id of its table; the id is \<open>lastInsertRowid\<close>\<close>
  "execute db (InsertAssessment name descr co2 energy mats) =
     (let i = lca_assessments_seq db + 1
      in (db\<lparr>lca_assessments := lca_assessments db @
               [\<lparr>a_id = i, a_name = name, a_description = descr, a_total_co2 = co2,
                 a_total_energy = energy, a_total_materials = mats\<rparr>],
             lca_assessments_seq := i\<rparr>, i))"
| "execute db (InsertMaterial aid t q u ec td co2 en cat) =
     (let i = assessment_materials_seq db + 1
      in (db\<lparr>assessment_materials := assessment_materials db @
               [\<lparr>am_id = i, am_assessment_id = aid, am_material_type = t, am_quantity = q,
                 am_unit = u, am_energy_consumption = ec, am_transport_distance = td,
                 am_co2_impact = co2, am_energy_impact = en, am_category = cat\<rparr>],
             assessment_materials_seq := i\<rparr>, i))"

definition database_run ::
  "(database \<Rightarrow> statement \<Rightarrow> bool) \<Rightarrow> database \<Rightarrow> statement \<Rightarrow> (database \<times> nat) option" where
  \<comment> \<open>\<open>None\<close> is the exception thrown by \<open>database.run\<close>\<close>
  "database_run refuses db stmt = (if refuses db stmt then None else Some (execute db stmt))"

definition material_statement :: "nat \<Rightarrow> material_impact \<Rightarrow> statement" where
  "material_statement assessmentId material =
     InsertMaterial assessmentId (b_material_type material) (b_quantity material) (b_unit material)
       0 0 (b_co2_impact material) (b_energy_impact material) (b_category material)"

fun save_materials ::
  "(database \<Rightarrow> statement \<Rightarrow> bool) \<Rightarrow> database \<Rightarrow> nat \<Rightarrow> material_impact list \<Rightarrow> database \<times> bool" where
  \<comment> \<open>the loop over \<open>materialBreakdown\<close>; \<open>False\<close> when an insert has thrown, the rows
     inserted before it stay\<close>
  "save_materials refuses db assessmentId [] = (db, True)"
| "save_materials refuses db assessmentId (material # rest) =
     (case database_run refuses db (material_statement assessmentId material) of
        None \<Rightarrow> (db, False)
      | Some (db', i) \<Rightarrow> save_materials refuses db' assessmentId rest)"

definition not_saved_warning :: string where
  "not_saved_warning = ''Assessment calculated but not saved to database.''"

definition or_empty :: "string option \<Rightarrow> string" where
  \<comment> \<open>\<open>description || ''\<close>\<close>
  "or_empty d = (case d of None \<Rightarrow> [] | Some s \<Rightarrow> s)"

definition save_assessment ::
  "(database \<Rightarrow> statement \<Rightarrow> bool) \<Rightarrow> database \<Rightarrow> string \<Rightarrow> string option \<Rightarrow> calc_state \<Rightarrow>
   material_impact list \<Rightarrow> database \<times> nat option \<times> string list" where
  \<comment> \<open>the \<open>try\<close> block: the database afterwards, \<open>assessmentId\<close>, and the warnings pushed\<close>
  "save_assessment refuses db assessment_name descr st mb =
     (case database_run refuses db
             (InsertAssessment assessment_name (or_empty descr) (totalCO2 st) (totalEnergy st)
                (totalMaterials st)) of
        None \<Rightarrow> (db, None, [not_saved_warning])
      | Some (db1, i) \<Rightarrow>
          (case save_materials refuses db1 i mb of
             (db2, completed) \<Rightarrow> (db2, Some i, if completed then [] else [not_saved_warning])))"

section \<open>POST /api/lca/calculate: the response\<close>

record request =
  req_materials :: "material_input list"
  req_assessment_name :: "string option"
  req_description :: "string option"

record summary =
  total_co2_kg :: num
  total_energy_mj :: num
  total_materials_kg :: num
  material_count :: nat

record category_entry =
  ce_category :: string
  ce_co2 :: num
  ce_energy :: num
  ce_materials :: num
  ce_count :: nat
  ce_percentage :: "num option"

record assessment_result =
  assessment_id :: "nat option"
  res_summary :: summary
  res_scores :: scores
  material_breakdown :: "material_impact list"
  category_breakdown :: "category_entry list"
  recommendations :: "recommendation list"
  res_warnings :: "string list"

datatype response = Status400 string | Status200 assessment_result

definition percentage :: "num \<Rightarrow> num \<Rightarrow> num option" where
  \<comment> \<open>\<open>Math.round((co2 / totalCO2 * 100) * 100) / 100\<close>; a division by zero gives a value
     that JSON writes as \<open>null\<close>\<close>
  "percentage co2 grand = (if grand = 0 then None else Some (round2 (co2 / grand * 100)))"

definition category_entries :: "num \<Rightarrow> (string \<times> category_totals) list \<Rightarrow> category_entry list" where
  "category_entries grand cb =
     map (\<lambda>(cat, e). \<lparr>ce_category = cat, ce_co2 = c_co2 e, ce_energy = c_energy e,
                       ce_materials = c_materials e, ce_count = c_count e,
                       ce_percentage = percentage (c_co2 e) grand\<rparr>) cb"

definition truthy_name :: "string option \<Rightarrow> string option" where
  \<comment> \<open>\<open>if (assessment_name)\<close>: an absent or empty name is no name\<close>
  "truthy_name n = (case n of None \<Rightarrow> None | Some s \<Rightarrow> if s = [] then None else Some s)"

definition calculate ::
  "emission_factor list \<Rightarrow> (database \<Rightarrow> statement \<Rightarrow> bool) \<Rightarrow> database \<Rightarrow> request \<Rightarrow> response \<times> database" where
  "calculate table refuses db req =
     (if req_materials req = [] then (Status400 ''Materials array is required'', db)
      else
        let st = calc_loop table (req_materials req);
            (recs, mb) = generateRecommendations (materialBreakdown st) (categoryBreakdown st);
            scs = calculateEnvironmentalScores (totalCO2 st) (totalEnergy st) (totalMaterials st);
            (db', assessmentId, ws) =
              (case truthy_name (req_assessment_name req) of
                 None \<Rightarrow> (db, None, [])
               | Some name \<Rightarrow> save_assessment refuses db name (req_description req) st mb)
        in (Status200
              \<lparr>assessment_id = assessmentId,
               res_summary = \<lparr>total_co2_kg = round2 (totalCO2 st),
                              total_energy_mj = round2 (totalEnergy st),
                              total_materials_kg = round2 (totalMaterials st),
                              material_count = length (req_materials req)\<rparr>,
               res_scores = scs,
               material_breakdown = mb,
               category_breakdown = category_entries (totalCO2 st) (categoryBreakdown st),
               recommendations = recs,
               res_warnings = warnings st @ ws\<rparr>,
            db'))"

definition empty_database :: database where
  "empty_database =
     \<lparr>lca_assessments = [], assessment_materials = [], lca_assessments_seq = 0,
      assessment_materials_seq = 0\<rparr>"

definition accepts_all :: "database \<Rightarrow> statement \<Rightarrow> bool" where
  \<comment> \<open>a database that refuses nothing\<close>
  "accepts_all db stmt = False"

section \<open>enrichMaterialData: the factor of one material\<close>

definition no_factor_warning :: "string \<Rightarrow> string" where
  "no_factor_warning t = ''No emission factor found for \"'' @ t @ ''\". Using estimated values.''"

definition enrich_emission_factor ::
  "emission_factor list \<Rightarrow> string \<Rightarrow> factor_set \<times> bool \<times> string option" where
  \<comment> \<open>the factors, the flag \<open>estimated\<close> and the \<open>warning\<close> set on the material\<close>
  "enrich_emission_factor table t =
     (case get_exact table t of
        Some r \<Rightarrow> (factors_of r, False, None)
      | None \<Rightarrow>
          (case get_partial table t of
             Some r \<Rightarrow> (factors_of r, False, None)
           | None \<Rightarrow> (default_factors, True, Some (no_factor_warning t))))"

section \<open>basicDataProcessing\<close>

text \<open>
  The materials come from the JSON body of the request. A field that should hold a number
  is absent (or \<open>null\<close>), a number or a text; truth values and nested objects are not
  modelled. A material may already carry the flags that an earlier round of processing has
  set, and \<open>{ ...material }\<close> copies them: the object that is processed and the
  processed object have the same shape. A flag that is absent is \<open>False\<close>, a note, a
  reason or a category that is absent is \<open>None\<close>. The conversion of a text to a number
  in the comparison \<open>material.quantity > 10000\<close> is the parameter \<open>toNumber\<close>, with
  \<open>None\<close> for a text that is not a number.
\<close>

datatype js_value = JsAbsent | JsNumber num | JsString string

record processed_material =
  p_material_type :: string
  p_quantity :: js_value
  p_unit :: "string option"
  p_energy_consumption :: js_value
  p_transport_distance :: js_value
  ai_imputed :: bool
  imputation_note :: "string option"
  p_category :: "string option"
  ai_categorized :: bool
  outlier_flag :: bool
  outlier_reason :: "string option"

definition falsy :: "js_value \<Rightarrow> bool" where
  \<comment> \<open>\<open>!x\<close>: absent, \<open>null\<close>, the number 0 or the empty text\<close>
  "falsy x = (case x of JsAbsent \<Rightarrow> True | JsNumber v \<Rightarrow> v = 0 | JsString t \<Rightarrow> t = [])"

definition exceeds :: "(string \<Rightarrow> num option) \<Rightarrow> js_value \<Rightarrow> num \<Rightarrow> bool" where
  \<comment> \<open>\<open>x > bound\<close> for a number \<open>bound\<close>: a text is converted to a number first, and
     nothing that is not a number exceeds anything\<close>
  "exceeds toNumber x bound =
     (case x of
        JsAbsent \<Rightarrow> False
      | JsNumber v \<Rightarrow> v > bound
      | JsString t \<Rightarrow> (case toNumber t of None \<Rightarrow> False | Some v \<Rightarrow> v > bound))"

definition energyEstimates :: "(string \<times> num) list" where
  "energyEstimates =
     [(''steel'', 24), (''aluminum'', 154), (''plastic'', 76), (''glass'', 15),
      (''concrete'', 1), (''wood'', 5 / 2), (''paper'', 20)]"

definition estimateEnergyConsumption :: "string \<Rightarrow> num" where
  "estimateEnergyConsumption materialType =
     (let lowerMaterial = toLowerCase materialType
      in case find (\<lambda>(key, val). str_includes lowerMaterial key) energyEstimates of
           Some (key, val) \<Rightarrow> val
         | None \<Rightarrow> 10)"

definition categorizeMaterial :: "string \<Rightarrow> string" where
  "categorizeMaterial materialType =
     (let lowerMaterial = toLowerCase materialType
      in if str_includes lowerMaterial ''steel'' \<or> str_includes lowerMaterial ''aluminum'' \<or>
            str_includes lowerMaterial ''copper'' \<or> str_includes lowerMaterial ''iron''
         then ''Metals''
         else if str_includes lowerMaterial ''plastic'' \<or> str_includes lowerMaterial ''polymer'' \<or>
            str_includes lowerMaterial ''pet'' \<or> str_includes lowerMaterial ''hdpe''
         then ''Plastics''
         else if str_includes lowerMaterial ''concrete'' \<or> str_includes lowerMaterial ''cement'' \<or>
            str_includes lowerMaterial ''brick'' \<or> str_includes lowerMaterial ''stone''
         then ''Construction''
         else if str_includes lowerMaterial ''glass'' then ''Glass''
         else if str_includes lowerMaterial ''wood'' \<or> str_includes lowerMaterial ''timber''
         then ''Construction''
         else if str_includes lowerMaterial ''paper'' \<or> str_includes lowerMaterial ''cardboard''
         then ''Paper''
         else if str_includes lowerMaterial ''cotton'' \<or> str_includes lowerMaterial ''polyester'' \<or>
            str_includes lowerMaterial ''fabric''
         then ''Textiles''
         else ''Unknown'')"

definition missing_fields :: "processed_material \<Rightarrow> string list" where
  "missing_fields material =
     (if falsy (p_quantity material) \<or> p_quantity material = JsNumber 0 then [''quantity''] else []) @
     (if falsy (p_energy_consumption material) then [''energy_consumption''] else []) @
     (if falsy (p_transport_distance material) then [''transport_distance''] else [])"

definition impute_quantity :: "string list \<Rightarrow> processed_material \<Rightarrow> processed_material" where
  "impute_quantity missingFields processed =
     (if ''quantity'' \<in> set missingFields
      then processed\<lparr>p_quantity := JsNumber 1, ai_imputed := True,
             imputation_note := Some ''Quantity imputed with default value''\<rparr>
      else processed)"

definition impute_energy ::
  "string list \<Rightarrow> processed_material \<Rightarrow> processed_material \<Rightarrow> processed_material" where
  "impute_energy missingFields material processed =
     (if ''energy_consumption'' \<in> set missingFields
      then processed\<lparr>p_energy_consumption :=
               JsNumber (estimateEnergyConsumption (p_material_type material)),
             ai_imputed := True,
             imputation_note :=
               Some (or_empty (imputation_note processed) @ '' Energy consumption estimated'')\<rparr>
      else processed)"

definition impute_transport :: "string list \<Rightarrow> processed_material \<Rightarrow> processed_material" where
  "impute_transport missingFields processed =
     (if ''transport_distance'' \<in> set missingFields
      then processed\<lparr>p_transport_distance := JsNumber 100, ai_imputed := True,
             imputation_note :=
               Some (or_empty (imputation_note processed) @ '' Transport distance estimated'')\<rparr>
      else processed)"

definition assign_category :: "processed_material \<Rightarrow> processed_material \<Rightarrow> processed_material" where
  "assign_category material processed =
     (let cat = categorizeMaterial (p_material_type material)
      in if cat = ''Unknown'' then processed\<lparr>p_category := Some cat, ai_categorized := True\<rparr>
         else processed\<lparr>p_category := Some cat\<rparr>)"

definition flag_outlier ::
  "(string \<Rightarrow> num option) \<Rightarrow> processed_material \<Rightarrow> processed_material \<Rightarrow> processed_material" where
  \<comment> \<open>\<open>material.quantity && material.quantity > 10000\<close>\<close>
  "flag_outlier toNumber material processed =
     (if \<not> falsy (p_quantity material) \<and> exceeds toNumber (p_quantity material) 10000
      then processed\<lparr>outlier_flag := True,
             outlier_reason := Some ''Unusually high quantity detected''\<rparr>
      else processed)"

definition process_material :: "(string \<Rightarrow> num option) \<Rightarrow> processed_material \<Rightarrow> processed_material" where
  \<comment> \<open>the function mapped over the materials by \<open>basicDataProcessing\<close>: the blocks of its
     body, in their order, starting from the copy \<open>{ ...material }\<close> of the material\<close>
  "process_material toNumber material =
     (let missingFields = missing_fields material
      in flag_outlier toNumber material
           (assign_category material
              (impute_transport missingFields
                 (impute_energy missingFields material
                    (impute_quantity missingFields material)))))"

definition basicDataProcessing ::
  "(string \<Rightarrow> num option) \<Rightarrow> processed_material list \<Rightarrow> processed_material list" where
  "basicDataProcessing toNumber materials = map (process_material toNumber) materials"

section \<open>Reading a response, and the requests of the scenarios\<close>

definition result_of :: "response \<Rightarrow> assessment_result option" where
  "result_of resp = (case resp of Status200 r \<Rightarrow> Some r | Status400 e \<Rightarrow> None)"

definition scenario_A :: request where
  "scenario_A =
     \<lparr>req_materials =
        [\<lparr>m_material_type = ''Steel'', m_quantity = Some 100, m_unit = Some ''kg'',
          m_energy_consumption = Some 0, m_transport_distance = Some 0\<rparr>],
      req_assessment_name = None, req_description = None\<rparr>"

definition scenario_two_materials :: request where
  "scenario_two_materials =
     \<lparr>req_materials =
        [\<lparr>m_material_type = ''Steel'', m_quantity = Some 100, m_unit = Some ''kg'',
          m_energy_consumption = Some 50, m_transport_distance = Some 200\<rparr>,
         \<lparr>m_material_type = ''Concrete'', m_quantity = Some 10, m_unit = Some ''kg'',
          m_energy_consumption = Some 5, m_transport_distance = Some 50\<rparr>],
      req_assessment_name = None, req_description = None\<rparr>"

definition concrete_then_steel :: request where
  "concrete_then_steel =
     \<lparr>req_materials =
        [\<lparr>m_material_type = ''Concrete'', m_quantity = Some 1, m_unit = Some ''kg'',
          m_energy_consumption = Some 0, m_transport_distance = Some 0\<rparr>,
         \<lparr>m_material_type = ''Steel'', m_quantity = Some 1, m_unit = Some ''kg'',
          m_energy_consumption = Some 0, m_transport_distance = Some 0\<rparr>],
      req_assessment_name = None, req_description = None\<rparr>"

definition wood_1000 :: request where
  "wood_1000 =
     \<lparr>req_materials =
        [\<lparr>m_material_type = ''Wood'', m_quantity = Some 1000, m_unit = Some ''kg'',
          m_energy_consumption = Some 0, m_transport_distance = Some 0\<rparr>],
      req_assessment_name = None, req_description = None\<rparr>"

definition named_steel :: request where
  "named_steel =
     \<lparr>req_materials =
        [\<lparr>m_material_type = ''Steel'', m_quantity = Some 100, m_unit = Some ''kg'',
          m_energy_consumption = Some 50, m_transport_distance = Some 200\<rparr>],
      req_assessment_name = Some ''Frame'', req_description = None\<rparr>"

definition refuses_materials :: "database \<Rightarrow> statement \<Rightarrow> bool" where
  \<comment> \<open>a database that takes the assessment and refuses its material rows\<close>
  "refuses_materials db stmt =
     (case stmt of InsertAssessment n d c e m \<Rightarrow> False
                 | InsertMaterial a t q u ec td c e cat \<Rightarrow> True)"

definition negative_quantity :: processed_material where
  "negative_quantity =
     \<lparr>p_material_type = ''Steel'', p_quantity = JsNumber (- 5), p_unit = Some ''kg'',
      p_energy_consumption = JsNumber 1, p_transport_distance = JsNumber 1, ai_imputed = False,
      imputation_note = None, p_category = None, ai_categorized = False, outlier_flag = False,
      outlier_reason = None\<rparr>"

definition tiny_transport :: request where
  "tiny_transport =
     \<lparr>req_materials =
        [\<lparr>m_material_type = ''Steel'', m_quantity = Some 100, m_unit = Some ''kg'',
          m_energy_consumption = Some 0, m_transport_distance = Some (1 / 1000)\<rparr>],
      req_assessment_name = None, req_description = None\<rparr>"

definition opposite_transports :: request where
  "opposite_transports =
     \<lparr>req_materials =
        [\<lparr>m_material_type = ''Steel'', m_quantity = Some 1, m_unit = Some ''kg'',
          m_energy_consumption = Some 0, m_transport_distance = Some 10\<rparr>,
         \<lparr>m_material_type = ''Steel'', m_quantity = Some 1, m_unit = Some ''kg'',
          m_energy_consumption = Some 0, m_transport_distance = Some (- 10)\<rparr>],
      req_assessment_name = None, req_description = None\<rparr>"

definition share :: "num \<Rightarrow> category_totals \<Rightarrow> num" where
  \<comment> \<open>the percentage of one category before it is rounded\<close>
  "share grand e = c_co2 e / grand * 100"






section \<open>The lookup in the words of the specification\<close>

definition spec_contains_either_way :: "string \<Rightarrow> string \<Rightarrow> bool" where
  \<comment> \<open>the specification's substring match: the table entry contains the input or is
     contained by it, without regard to case\<close>
  "spec_contains_either_way entry t =
     (str_includes (toLowerCase entry) (toLowerCase t) \<or> str_includes (toLowerCase t) (toLowerCase entry))"

definition spec_three_stage_lookup :: "emission_factor list \<Rightarrow> string \<Rightarrow> factor_set \<times> string list" where
  \<comment> \<open>the lookup as the specification words it: exact match, then the first substring
     match in the order of the material types, then the defaults with a warning\<close>
  "spec_three_stage_lookup table t =
     (case find (\<lambda>r. toLowerCase (ef_material_type r) = toLowerCase t) table of
        Some r \<Rightarrow> (factors_of r, [])
      | None \<Rightarrow>
          (case sort_key ef_material_type
                  (filter (\<lambda>r. spec_contains_either_way (ef_material_type r) t) table) of
             r # rest \<Rightarrow> (factors_of r, [])
           | [] \<Rightarrow> (default_factors, [unknown_warning t])))"

section \<open>Scores and grades\<close>

lemma scores_zero_totals:
  "calculateEnvironmentalScores 0 0 0 =
     \<lparr>s_overall = 100, s_co2 = 100, s_energy = 100, s_materials = 100, s_grade = ''A+''\<rparr>"
  by code_simp

lemma scores_rounding_boundary:
  "calculateEnvironmentalScores 315 0 0 =
     \<lparr>s_overall = 90, s_co2 = 69, s_energy = 100, s_materials = 100, s_grade = ''A''\<rparr>"
  by code_simp

lemma overall_zero_totals: "overallScore 0 0 0 = 100"
  by (simp add: overallScore_def co2Score_def energyScore_def materialScore_def)

lemma grade_bands:
  "(getEnvironmentalGrade s = ''A+'' \<longleftrightarrow> 90 \<le> s)
   \<and> (getEnvironmentalGrade s = ''A'' \<longleftrightarrow> 80 \<le> s \<and> s < 90)
   \<and> (getEnvironmentalGrade s = ''B'' \<longleftrightarrow> 70 \<le> s \<and> s < 80)
   \<and> (getEnvironmentalGrade s = ''C'' \<longleftrightarrow> 60 \<le> s \<and> s < 70)
   \<and> (getEnvironmentalGrade s = ''D'' \<longleftrightarrow> 50 \<le> s \<and> s < 60)
   \<and> (getEnvironmentalGrade s = ''F'' \<longleftrightarrow> s < 50)"
  by (simp add: getEnvironmentalGrade_def)

text \<open>
  Claim C5. The grade is computed from the overall score before it is rounded, each band
  including its lower bound: at least 90 is A+, at least 80 is A, at least 70 is B, at least
  60 is C, at least 50 is D, anything lower is F. Totals of zero give an overall score of 100
  and the grade A+. A total of 315 kg of CO2 alone gives the overall score 89.5, which is
  reported as 90 and graded A.
\<close>

theorem grade_of_unrounded_overall:
  "s_grade (calculateEnvironmentalScores co2 energy materials) =
     getEnvironmentalGrade (overallScore co2 energy materials)
   \<and> (getEnvironmentalGrade s = ''A+'' \<longleftrightarrow> 90 \<le> s)
   \<and> (getEnvironmentalGrade s = ''A'' \<longleftrightarrow> 80 \<le> s \<and> s < 90)
   \<and> (getEnvironmentalGrade s = ''B'' \<longleftrightarrow> 70 \<le> s \<and> s < 80)
   \<and> (getEnvironmentalGrade s = ''C'' \<longleftrightarrow> 60 \<le> s \<and> s < 70)
   \<and> (getEnvironmentalGrade s = ''D'' \<longleftrightarrow> 50 \<le> s \<and> s < 60)
   \<and> (getEnvironmentalGrade s = ''F'' \<longleftrightarrow> s < 50)
   \<and> overallScore 0 0 0 = 100
   \<and> s_overall (calculateEnvironmentalScores 0 0 0) = 100
   \<and> s_grade (calculateEnvironmentalScores 0 0 0) = ''A+''
   \<and> s_overall (calculateEnvironmentalScores 315 0 0) = 90
   \<and> s_grade (calculateEnvironmentalScores 315 0 0) = ''A''"
proof -
  have "s_grade (calculateEnvironmentalScores co2 energy materials) =
     getEnvironmentalGrade (overallScore co2 energy materials)"
    by (simp add: calculateEnvironmentalScores_def)
  then show ?thesis
    using grade_bands [of s] overall_zero_totals
    by (simp only: scores_zero_totals scores_rounding_boundary scores.simps)
qed

section \<open>The running totals\<close>

lemma calc_step_shape:
  "\<exists>b. materialBreakdown (calc_step table st m) = materialBreakdown st @ [b]
     \<and> totalCO2 (calc_step table st m) = totalCO2 st + (b_co2_impact b + (1 / 10) * b_transport_impact b)
     \<and> totalEnergy (calc_step table st m) = totalEnergy st + b_energy_impact b
     \<and> totalMaterials (calc_step table st m) = totalMaterials st + b_quantity b"
  by (simp add: calc_step_def Let_def split: prod.splits)

lemma calc_step_totals:
  assumes "totalCO2 st = (\<Sum>b\<leftarrow>materialBreakdown st. b_co2_impact b + (1 / 10) * b_transport_impact b)"
    and "totalEnergy st = (\<Sum>b\<leftarrow>materialBreakdown st. b_energy_impact b)"
    and "totalMaterials st = (\<Sum>b\<leftarrow>materialBreakdown st. b_quantity b)"
  shows "totalCO2 (calc_step table st m) =
           (\<Sum>b\<leftarrow>materialBreakdown (calc_step table st m). b_co2_impact b + (1 / 10) * b_transport_impact b)
         \<and> totalEnergy (calc_step table st m) =
           (\<Sum>b\<leftarrow>materialBreakdown (calc_step table st m). b_energy_impact b)
         \<and> totalMaterials (calc_step table st m) =
           (\<Sum>b\<leftarrow>materialBreakdown (calc_step table st m). b_quantity b)"
proof -
  from calc_step_shape [of table st m] obtain b where
    "materialBreakdown (calc_step table st m) = materialBreakdown st @ [b]"
    "totalCO2 (calc_step table st m) = totalCO2 st + (b_co2_impact b + (1 / 10) * b_transport_impact b)"
    "totalEnergy (calc_step table st m) = totalEnergy st + b_energy_impact b"
    "totalMaterials (calc_step table st m) = totalMaterials st + b_quantity b"
    by blast
  with assms show ?thesis by simp
qed

lemma foldl_calc_step_totals:
  assumes "totalCO2 st = (\<Sum>b\<leftarrow>materialBreakdown st. b_co2_impact b + (1 / 10) * b_transport_impact b)"
    and "totalEnergy st = (\<Sum>b\<leftarrow>materialBreakdown st. b_energy_impact b)"
    and "totalMaterials st = (\<Sum>b\<leftarrow>materialBreakdown st. b_quantity b)"
  shows "totalCO2 (foldl (calc_step table) st ms) =
           (\<Sum>b\<leftarrow>materialBreakdown (foldl (calc_step table) st ms). b_co2_impact b + (1 / 10) * b_transport_impact b)
         \<and> totalEnergy (foldl (calc_step table) st ms) =
           (\<Sum>b\<leftarrow>materialBreakdown (foldl (calc_step table) st ms). b_energy_impact b)
         \<and> totalMaterials (foldl (calc_step table) st ms) =
           (\<Sum>b\<leftarrow>materialBreakdown (foldl (calc_step table) st ms). b_quantity b)"
  using assms
proof (induction ms arbitrary: st)
  case Nil
  then show ?case by simp
next
  case (Cons m ms)
  from calc_step_totals [OF Cons.prems, of table m]
  show ?case by (simp add: Cons.IH)
qed

lemma calc_loop_totals:
  "totalCO2 (calc_loop table ms) =
     (\<Sum>b\<leftarrow>materialBreakdown (calc_loop table ms). b_co2_impact b + (1 / 10) * b_transport_impact b)
   \<and> totalEnergy (calc_loop table ms) = (\<Sum>b\<leftarrow>materialBreakdown (calc_loop table ms). b_energy_impact b)
   \<and> totalMaterials (calc_loop table ms) = (\<Sum>b\<leftarrow>materialBreakdown (calc_loop table ms). b_quantity b)"
  unfolding calc_loop_def
  by (rule foldl_calc_step_totals) (simp_all add: initial_state_def)

lemma scenario_A_result:
  "map_option (\<lambda>r. (map (\<lambda>b. (b_material_type b, b_category b, b_co2_impact b, b_energy_impact b,
                                b_transport_impact b)) (material_breakdown r),
                      total_co2_kg (res_summary r)))
     (result_of (fst (calculate seeded_table accepts_all empty_database scenario_A))) =
   Some ([(''Steel'', ''Metals'', 185, 2400, 0)], 185)"
  by code_simp

lemma calc_step_of_material:
  "materialBreakdown (calc_step table st m) = materialBreakdown st @ [\<lparr>b_material_type = m_material_type m,
              b_category = category (fst (calc_emission_factor table (m_material_type m))),
              b_quantity = parseFloat_or0 (m_quantity m),
              b_unit = unit_or_kg (m_unit m),
              b_co2_impact = parseFloat_or0 (m_quantity m) * co2_factor (fst (calc_emission_factor table (m_material_type m))),
              b_energy_impact = parseFloat_or0 (m_quantity m) * energy_factor (fst (calc_emission_factor table (m_material_type m))) + parseFloat_or0 (m_energy_consumption m),
              b_transport_impact = parseFloat_or0 (m_transport_distance m) * transport_factor (fst (calc_emission_factor table (m_material_type m))) * parseFloat_or0 (m_quantity m),
              b_total_impact = parseFloat_or0 (m_quantity m) * co2_factor (fst (calc_emission_factor table (m_material_type m))) + (parseFloat_or0 (m_quantity m) * energy_factor (fst (calc_emission_factor table (m_material_type m))) + parseFloat_or0 (m_energy_consumption m)) + parseFloat_or0 (m_transport_distance m) * transport_factor (fst (calc_emission_factor table (m_material_type m))) * parseFloat_or0 (m_quantity m)\<rparr>]"
  "totalCO2 (calc_step table st m) = totalCO2 st + (parseFloat_or0 (m_quantity m) * co2_factor (fst (calc_emission_factor table (m_material_type m))) + (1 / 10) * (parseFloat_or0 (m_transport_distance m) * transport_factor (fst (calc_emission_factor table (m_material_type m))) * parseFloat_or0 (m_quantity m)))"
  "totalEnergy (calc_step table st m) = totalEnergy st + (parseFloat_or0 (m_quantity m) * energy_factor (fst (calc_emission_factor table (m_material_type m))) + parseFloat_or0 (m_energy_consumption m))"
  "totalMaterials (calc_step table st m) = totalMaterials st + parseFloat_or0 (m_quantity m)"
  by (simp_all add: calc_step_def Let_def split: prod.splits)

lemma foldl_calc_step_of_materials:
  "materialBreakdown (foldl (calc_step table) st ms) =
     materialBreakdown st @ map (\<lambda>m. \<lparr>b_material_type = m_material_type m,
              b_category = category (fst (calc_emission_factor table (m_material_type m))),
              b_quantity = parseFloat_or0 (m_quantity m),
              b_unit = unit_or_kg (m_unit m),
              b_co2_impact = parseFloat_or0 (m_quantity m) * co2_factor (fst (calc_emission_factor table (m_material_type m))),
              b_energy_impact = parseFloat_or0 (m_quantity m) * energy_factor (fst (calc_emission_factor table (m_material_type m))) + parseFloat_or0 (m_energy_consumption m),
              b_transport_impact = parseFloat_or0 (m_transport_distance m) * transport_factor (fst (calc_emission_factor table (m_material_type m))) * parseFloat_or0 (m_quantity m),
              b_total_impact = parseFloat_or0 (m_quantity m) * co2_factor (fst (calc_emission_factor table (m_material_type m))) + (parseFloat_or0 (m_quantity m) * energy_factor (fst (calc_emission_factor table (m_material_type m))) + parseFloat_or0 (m_energy_consumption m)) + parseFloat_or0 (m_transport_distance m) * transport_factor (fst (calc_emission_factor table (m_material_type m))) * parseFloat_or0 (m_quantity m)\<rparr>) ms"
  "totalCO2 (foldl (calc_step table) st ms) =
     totalCO2 st + (\<Sum>m\<leftarrow>ms. parseFloat_or0 (m_quantity m) * co2_factor (fst (calc_emission_factor table (m_material_type m))) + (1 / 10) * (parseFloat_or0 (m_transport_distance m) * transport_factor (fst (calc_emission_factor table (m_material_type m))) * parseFloat_or0 (m_quantity m)))"
  "totalEnergy (foldl (calc_step table) st ms) = totalEnergy st + (\<Sum>m\<leftarrow>ms. parseFloat_or0 (m_quantity m) * energy_factor (fst (calc_emission_factor table (m_material_type m))) + parseFloat_or0 (m_energy_consumption m))"
  "totalMaterials (foldl (calc_step table) st ms) = totalMaterials st + (\<Sum>m\<leftarrow>ms. parseFloat_or0 (m_quantity m))"
  by (induction ms arbitrary: st, simp_all add: calc_step_of_material)+

lemma calc_loop_of_materials:
  "materialBreakdown (calc_loop table ms) = map (\<lambda>m. \<lparr>b_material_type = m_material_type m,
              b_category = category (fst (calc_emission_factor table (m_material_type m))),
              b_quantity = parseFloat_or0 (m_quantity m),
              b_unit = unit_or_kg (m_unit m),
              b_co2_impact = parseFloat_or0 (m_quantity m) * co2_factor (fst (calc_emission_factor table (m_material_type m))),
              b_energy_impact = parseFloat_or0 (m_quantity m) * energy_factor (fst (calc_emission_factor table (m_material_type m))) + parseFloat_or0 (m_energy_consumption m),
              b_transport_impact = parseFloat_or0 (m_transport_distance m) * transport_factor (fst (calc_emission_factor table (m_material_type m))) * parseFloat_or0 (m_quantity m),
              b_total_impact = parseFloat_or0 (m_quantity m) * co2_factor (fst (calc_emission_factor table (m_material_type m))) + (parseFloat_or0 (m_quantity m) * energy_factor (fst (calc_emission_factor table (m_material_type m))) + parseFloat_or0 (m_energy_consumption m)) + parseFloat_or0 (m_transport_distance m) * transport_factor (fst (calc_emission_factor table (m_material_type m))) * parseFloat_or0 (m_quantity m)\<rparr>) ms"
  "totalCO2 (calc_loop table ms) = (\<Sum>m\<leftarrow>ms. parseFloat_or0 (m_quantity m) * co2_factor (fst (calc_emission_factor table (m_material_type m))) + (1 / 10) * (parseFloat_or0 (m_transport_distance m) * transport_factor (fst (calc_emission_factor table (m_material_type m))) * parseFloat_or0 (m_quantity m)))"
  "totalEnergy (calc_loop table ms) = (\<Sum>m\<leftarrow>ms. parseFloat_or0 (m_quantity m) * energy_factor (fst (calc_emission_factor table (m_material_type m))) + parseFloat_or0 (m_energy_consumption m))"
  "totalMaterials (calc_loop table ms) = (\<Sum>m\<leftarrow>ms. parseFloat_or0 (m_quantity m))"
  by (simp_all add: calc_loop_def foldl_calc_step_of_materials initial_state_def)

lemma scenario_two_materials_result:
  "map_option (\<lambda>r. (map (\<lambda>b. (b_material_type b, b_co2_impact b, b_energy_impact b,
                                b_transport_impact b)) (material_breakdown r),
                      total_co2_kg (res_summary r), total_energy_mj (res_summary r),
                      total_materials_kg (res_summary r)))
     (result_of (fst (calculate seeded_table accepts_all empty_database scenario_two_materials))) =
   Some ([(''Steel'', 185, 2450, 2000), (''Concrete'', 13 / 10, 15, 10)], 3873 / 10, 2465, 110)"
  by code_simp

text \<open>
  Claim C3. The loop turns the list of materials into one impact record each, in the order
  of the list: the CO2 impact is the quantity times the CO2 factor, the energy impact the
  quantity times the energy factor plus the energy consumption, the transport impact the
  transport distance times the transport factor times the quantity, with the factors that
  the lookup gives for the material type and absent numbers taken as 0. The total CO2 is
  the sum over the materials of the CO2 impact plus a tenth of the transport impact, the
  total energy is the sum of the energy impacts, and the total of materials is the sum of
  the quantities; the same sums taken over the material breakdown give the totals. For the
  single material Steel, quantity 100, energy consumption 0, transport distance 0, the
  seeded table gives the CO2 impact 185, the energy impact 2400, the transport impact 0,
  the category Metals and a reported total of 185 kg of CO2. For 100 kg of Steel with an
  energy consumption of 50 carried over 200 km and 10 kg of Concrete with an energy
  consumption of 5 carried over 50 km, the impacts are 185, 2450, 2000 and 1.3, 15, 10, and
  the reported totals are 387.3 kg of CO2, 2465 MJ and 110 kg.
\<close>

theorem totals_are_sums_of_impacts:
  "materialBreakdown (calc_loop table ms) =
     map (\<lambda>m. \<lparr>b_material_type = m_material_type m,
              b_category = category (fst (calc_emission_factor table (m_material_type m))),
              b_quantity = parseFloat_or0 (m_quantity m),
              b_unit = unit_or_kg (m_unit m),
              b_co2_impact = parseFloat_or0 (m_quantity m) * co2_factor (fst (calc_emission_factor table (m_material_type m))),
              b_energy_impact = parseFloat_or0 (m_quantity m) * energy_factor (fst (calc_emission_factor table (m_material_type m))) + parseFloat_or0 (m_energy_consumption m),
              b_transport_impact = parseFloat_or0 (m_transport_distance m) * transport_factor (fst (calc_emission_factor table (m_material_type m))) * parseFloat_or0 (m_quantity m),
              b_total_impact = parseFloat_or0 (m_quantity m) * co2_factor (fst (calc_emission_factor table (m_material_type m))) + (parseFloat_or0 (m_quantity m) * energy_factor (fst (calc_emission_factor table (m_material_type m))) + parseFloat_or0 (m_energy_consumption m)) + parseFloat_or0 (m_transport_distance m) * transport_factor (fst (calc_emission_factor table (m_material_type m))) * parseFloat_or0 (m_quantity m)\<rparr>) ms
   \<and> totalCO2 (calc_loop table ms) =
     (\<Sum>m\<leftarrow>ms. parseFloat_or0 (m_quantity m) * co2_factor (fst (calc_emission_factor table (m_material_type m))) + (1 / 10) * (parseFloat_or0 (m_transport_distance m) * transport_factor (fst (calc_emission_factor table (m_material_type m))) * parseFloat_or0 (m_quantity m)))
   \<and> totalEnergy (calc_loop table ms) =
     (\<Sum>m\<leftarrow>ms. parseFloat_or0 (m_quantity m) * energy_factor (fst (calc_emission_factor table (m_material_type m))) + parseFloat_or0 (m_energy_consumption m))
   \<and> totalMaterials (calc_loop table ms) = (\<Sum>m\<leftarrow>ms. parseFloat_or0 (m_quantity m))
   \<and> totalCO2 (calc_loop table ms) =
     (\<Sum>b\<leftarrow>materialBreakdown (calc_loop table ms). b_co2_impact b + (1 / 10) * b_transport_impact b)
   \<and> totalEnergy (calc_loop table ms) = (\<Sum>b\<leftarrow>materialBreakdown (calc_loop table ms). b_energy_impact b)
   \<and> totalMaterials (calc_loop table ms) = (\<Sum>b\<leftarrow>materialBreakdown (calc_loop table ms). b_quantity b)
   \<and> map_option (\<lambda>r. (map (\<lambda>b. (b_material_type b, b_category b, b_co2_impact b, b_energy_impact b,
                                  b_transport_impact b)) (material_breakdown r),
                        total_co2_kg (res_summary r)))
        (result_of (fst (calculate seeded_table accepts_all empty_database scenario_A))) =
      Some ([(''Steel'', ''Metals'', 185, 2400, 0)], 185)
   \<and> map_option (\<lambda>r. (map (\<lambda>b. (b_material_type b, b_co2_impact b, b_energy_impact b,
                                  b_transport_impact b)) (material_breakdown r),
                        total_co2_kg (res_summary r), total_energy_mj (res_summary r),
                        total_materials_kg (res_summary r)))
        (result_of (fst (calculate seeded_table accepts_all empty_database scenario_two_materials))) =
      Some ([(''Steel'', 185, 2450, 2000), (''Concrete'', 13 / 10, 15, 10)], 3873 / 10, 2465, 110)"
  using calc_loop_of_materials [of table ms] calc_loop_totals [of table ms] scenario_A_result
    scenario_two_materials_result
  by blast

section \<open>The recommendation rules\<close>

lemma sort_key_head_least:
  fixes g :: "'a \<Rightarrow> 'b::linorder"
  assumes "sort_key g xs = h # t"
  shows "h \<in> set xs \<and> (\<forall>x\<in>set xs. g h \<le> g x)"
proof -
  have "sorted (map g (h # t))" using assms sorted_sort_key [of g xs] by simp
  moreover have "set (h # t) = set xs" using assms set_sort [of g xs] by simp
  ultimately show ?thesis by auto
qed

lemma sort_key_Nil_iff: "sort_key g xs = [] \<longleftrightarrow> xs = []"
  by (metis length_sort length_0_conv)

lemma high_impact_rule_fires:
  "high_impact_rule (sort_by_impact mb) \<noteq> [] \<longleftrightarrow> (\<exists>m\<in>set mb. b_total_impact m > 100)"
proof (cases "sort_by_impact mb")
  case Nil
  then have "mb = []" by (simp add: sort_by_impact_def sort_key_Nil_iff)
  with Nil show ?thesis by (simp add: high_impact_rule_def)
next
  case (Cons h t)
  from sort_key_head_least [OF Cons [unfolded sort_by_impact_def]]
  have h: "h \<in> set mb" and le: "\<forall>x\<in>set mb. b_total_impact x \<le> b_total_impact h" by auto
  show ?thesis using Cons h le by (auto simp: high_impact_rule_def)
qed

lemma high_impact_rule_types:
  "map r_type (high_impact_rule sm) = (if high_impact_rule sm \<noteq> [] then [''high_impact''] else [])"
  by (simp add: high_impact_rule_def split: list.splits)

lemma category_rule_fires:
  "category_rule cb \<noteq> [] \<longleftrightarrow> (\<exists>e\<in>set cb. c_co2 (snd e) > 50)"
proof (cases "sort_by_co2 cb")
  case Nil
  then have "cb = []" by (simp add: sort_by_co2_def sort_key_Nil_iff)
  with Nil show ?thesis by (simp add: category_rule_def)
next
  case (Cons h t)
  from sort_key_head_least [OF Cons [unfolded sort_by_co2_def]]
  have h: "h \<in> set cb" and le: "\<forall>x\<in>set cb. c_co2 (snd x) \<le> c_co2 (snd h)" by auto
  show ?thesis using Cons h le by (auto simp: category_rule_def split: prod.splits) force
qed

lemma category_rule_types:
  "map r_type (category_rule cb) = (if category_rule cb \<noteq> [] then [''category_optimization''] else [])"
  by (simp add: category_rule_def split: list.splits prod.splits)

lemma foldl_add_sum_list:
  fixes f :: "'a \<Rightarrow> rat"
  shows "foldl (\<lambda>sum m. sum + f m) a xs = a + sum_list (map f xs)"
  by (induction xs arbitrary: a) simp_all

lemma sum_list_insort_key:
  fixes f :: "'a \<Rightarrow> rat"
  shows "sum_list (map f (insort_key g x xs)) = f x + sum_list (map f xs)"
  by (induction xs) simp_all

lemma sum_list_sort_key:
  fixes f :: "'a \<Rightarrow> rat"
  shows "sum_list (map f (sort_key g xs)) = sum_list (map f xs)"
  by (induction xs) (simp_all add: sum_list_insort_key)

lemma energy_rule_types:
  "map r_type (energy_rule (sort_by_impact mb)) =
     (if sum_list (map b_energy_impact mb) > 1000 then [''energy_efficiency''] else [])"
  by (simp add: energy_rule_def Let_def foldl_add_sum_list sort_by_impact_def sum_list_sort_key)

lemma transport_rule_types:
  "map r_type (transport_rule (sort_by_impact mb)) =
     (if \<exists>m\<in>set mb. b_transport_impact m > 10 then [''transport_optimization''] else [])"
  by (auto simp: transport_rule_def Let_def sort_by_impact_def filter_empty_conv)

text \<open>
  Claim C8. For every material breakdown and category breakdown, the recommendation
  generator goes through its rules in the order high impact, category optimization, energy
  efficiency, transport optimization, general. Each rule whose condition holds contributes
  its recommendation, whatever the other rules do: some material has a total impact above
  100; some category has more than 50 kg of CO2; the energy impacts sum to more than 1000;
  some material has a transport impact above 10. The general recommendation is always
  present and always last.
\<close>

theorem all_matching_rules_fire_in_order:
  "map r_type (fst (generateRecommendations mb cb)) =
     (if \<exists>m\<in>set mb. b_total_impact m > 100 then [''high_impact''] else []) @
     (if \<exists>e\<in>set cb. c_co2 (snd e) > 50 then [''category_optimization''] else []) @
     (if sum_list (map b_energy_impact mb) > 1000 then [''energy_efficiency''] else []) @
     (if \<exists>m\<in>set mb. b_transport_impact m > 10 then [''transport_optimization''] else []) @
     [''general'']
   \<and> last (fst (generateRecommendations mb cb)) = general_recommendation
   \<and> r_type general_recommendation = ''general''"
  by (simp add: generateRecommendations_def Let_def high_impact_rule_types category_rule_types
      energy_rule_types transport_rule_types high_impact_rule_fires category_rule_fires
      general_recommendation_def)

section \<open>The response of the calculation\<close>

lemma calculate_shape:
  assumes "req_materials req \<noteq> []"
  shows "\<exists>r db'. calculate table refuses db req = (Status200 r, db')
     \<and> material_breakdown r = sort_by_impact (materialBreakdown (calc_loop table (req_materials req)))
     \<and> category_breakdown r =
         category_entries (totalCO2 (calc_loop table (req_materials req)))
           (categoryBreakdown (calc_loop table (req_materials req)))
     \<and> recommendations r =
         fst (generateRecommendations (materialBreakdown (calc_loop table (req_materials req)))
                (categoryBreakdown (calc_loop table (req_materials req))))
     \<and> res_scores r =
         calculateEnvironmentalScores (totalCO2 (calc_loop table (req_materials req)))
           (totalEnergy (calc_loop table (req_materials req)))
           (totalMaterials (calc_loop table (req_materials req)))"
  using assms
  by (simp add: calculate_def Let_def generateRecommendations_def split: prod.splits option.splits)

lemma breakdown_length:
  "length (materialBreakdown (foldl (calc_step table) st ms)) = length (materialBreakdown st) + length ms"
  by (induction ms arbitrary: st) (simp_all add: calc_step_def Let_def split: prod.splits)

lemma calc_loop_breakdown_length: "length (materialBreakdown (calc_loop table ms)) = length ms"
  by (simp add: calc_loop_def breakdown_length initial_state_def)

lemma sort_by_impact_length: "length (sort_by_impact mb) = length mb"
  by (simp add: sort_by_impact_def)

lemma calculate_unnamed:
  assumes "req_materials req \<noteq> []" and "truthy_name (req_assessment_name req) = None"
  shows "calculate table refuses db req =
     (Status200
        \<lparr>assessment_id = None,
         res_summary =
           \<lparr>total_co2_kg = round2 (totalCO2 (calc_loop table (req_materials req))),
            total_energy_mj = round2 (totalEnergy (calc_loop table (req_materials req))),
            total_materials_kg = round2 (totalMaterials (calc_loop table (req_materials req))),
            material_count = length (req_materials req)\<rparr>,
         res_scores =
           calculateEnvironmentalScores (totalCO2 (calc_loop table (req_materials req)))
             (totalEnergy (calc_loop table (req_materials req)))
             (totalMaterials (calc_loop table (req_materials req))),
         material_breakdown = sort_by_impact (materialBreakdown (calc_loop table (req_materials req))),
         category_breakdown =
           category_entries (totalCO2 (calc_loop table (req_materials req)))
             (categoryBreakdown (calc_loop table (req_materials req))),
         recommendations =
           fst (generateRecommendations (materialBreakdown (calc_loop table (req_materials req)))
                  (categoryBreakdown (calc_loop table (req_materials req)))),
         res_warnings = warnings (calc_loop table (req_materials req))\<rparr>,
      db)"
  using assms by (simp add: calculate_def Let_def generateRecommendations_def)

lemma calculate_named:
  assumes "req_materials req \<noteq> []" and "truthy_name (req_assessment_name req) = Some name"
    and "save_assessment refuses db name (req_description req) (calc_loop table (req_materials req))
           (sort_by_impact (materialBreakdown (calc_loop table (req_materials req)))) = (db', aid, ws)"
  shows "calculate table refuses db req =
     (Status200
        \<lparr>assessment_id = aid,
         res_summary =
           \<lparr>total_co2_kg = round2 (totalCO2 (calc_loop table (req_materials req))),
            total_energy_mj = round2 (totalEnergy (calc_loop table (req_materials req))),
            total_materials_kg = round2 (totalMaterials (calc_loop table (req_materials req))),
            material_count = length (req_materials req)\<rparr>,
         res_scores =
           calculateEnvironmentalScores (totalCO2 (calc_loop table (req_materials req)))
             (totalEnergy (calc_loop table (req_materials req)))
             (totalMaterials (calc_loop table (req_materials req))),
         material_breakdown = sort_by_impact (materialBreakdown (calc_loop table (req_materials req))),
         category_breakdown =
           category_entries (totalCO2 (calc_loop table (req_materials req)))
             (categoryBreakdown (calc_loop table (req_materials req))),
         recommendations =
           fst (generateRecommendations (materialBreakdown (calc_loop table (req_materials req)))
                  (categoryBreakdown (calc_loop table (req_materials req)))),
         res_warnings = warnings (calc_loop table (req_materials req)) @ ws\<rparr>,
      db')"
  using assms by (simp add: calculate_def Let_def generateRecommendations_def)

lemma breakdown_length_preserved:
  assumes "req_materials req \<noteq> []"
  shows "\<exists>r db'. calculate table refuses db req = (Status200 r, db')
     \<and> length (material_breakdown r) = length (req_materials req)"
  using calculate_shape [OF assms, of table refuses db]
  by (auto simp: sort_by_impact_length calc_loop_breakdown_length)

lemma concrete_then_steel_sorted:
  "map b_material_type
     (sort_by_impact (materialBreakdown (calc_loop seeded_table (req_materials concrete_then_steel)))) =
   [''Steel'', ''Concrete'']"
  by code_simp

text \<open>
  Claim C1. The material breakdown of the response has the length of the input list and
  lists the materials in the order of the input. The length is kept
  (\<open>breakdown_length_preserved\<close>), the order is not: the recommendation generator sorts
  the array it is given in place, by total impact with the largest first, and the response
  carries the sorted array. For the input Concrete, Steel the response lists Steel, Concrete.
\<close>

theorem breakdown_sorted_not_input_order:
  "map m_material_type (req_materials concrete_then_steel) = [''Concrete'', ''Steel'']
   \<and> map_option (\<lambda>r. map b_material_type (material_breakdown r))
        (result_of (fst (calculate seeded_table accepts_all empty_database concrete_then_steel))) =
      Some [''Steel'', ''Concrete'']"
proof -
  have "req_materials concrete_then_steel \<noteq> []"
    and "truthy_name (req_assessment_name concrete_then_steel) = None"
    by (simp_all add: concrete_then_steel_def truthy_name_def)
  from calculate_unnamed [OF this]
  have "map_option (\<lambda>r. map b_material_type (material_breakdown r))
        (result_of (fst (calculate seeded_table accepts_all empty_database concrete_then_steel))) =
      Some [''Steel'', ''Concrete'']"
    by (simp add: result_of_def concrete_then_steel_sorted)
  moreover have "map m_material_type (req_materials concrete_then_steel) = [''Concrete'', ''Steel'']"
    by (simp add: concrete_then_steel_def)
  ultimately show ?thesis by simp
qed

subsection \<open>The range of the scores\<close>

lemma Math_round_nonneg: "0 \<le> x \<Longrightarrow> 0 \<le> Math_round x"
  by (simp add: Math_round_def)

lemma Math_round_le_100: "x \<le> 100 \<Longrightarrow> Math_round x \<le> 100"
  by (simp add: Math_round_def floor_le_iff)

lemma scores_never_negative:
  "0 \<le> s_overall (calculateEnvironmentalScores co2 energy materials)
   \<and> 0 \<le> s_co2 (calculateEnvironmentalScores co2 energy materials)
   \<and> 0 \<le> s_energy (calculateEnvironmentalScores co2 energy materials)
   \<and> 0 \<le> s_materials (calculateEnvironmentalScores co2 energy materials)"
  by (simp add: calculateEnvironmentalScores_def Math_round_nonneg overallScore_def co2Score_def
      energyScore_def materialScore_def)

lemma scores_at_most_100_for_nonnegative_totals:
  assumes "0 \<le> co2" "0 \<le> energy" "0 \<le> materials"
  shows "s_overall (calculateEnvironmentalScores co2 energy materials) \<le> 100
   \<and> s_co2 (calculateEnvironmentalScores co2 energy materials) \<le> 100
   \<and> s_energy (calculateEnvironmentalScores co2 energy materials) \<le> 100
   \<and> s_materials (calculateEnvironmentalScores co2 energy materials) \<le> 100"
  using assms
  by (simp add: calculateEnvironmentalScores_def Math_round_le_100 overallScore_def co2Score_def
      energyScore_def materialScore_def)

lemma wood_scores:
  "calculateEnvironmentalScores (totalCO2 (calc_loop seeded_table (req_materials wood_1000)))
     (totalEnergy (calc_loop seeded_table (req_materials wood_1000)))
     (totalMaterials (calc_loop seeded_table (req_materials wood_1000))) =
   \<lparr>s_overall = 115, s_co2 = 190, s_energy = 75, s_materials = 80, s_grade = ''A+''\<rparr>"
  by code_simp

text \<open>
  Claim C4. Each of the four reported scores is an integer from 0 to 100. No score is
  negative (\<open>scores_never_negative\<close>), and none exceeds 100 when the totals are not
  negative (\<open>scores_at_most_100_for_nonnegative_totals\<close>), but the scores have no upper
  clip: 1000 kg of Wood, whose seeded CO2 factor is negative, gives a CO2 total of -900 and
  the scores 190 for CO2 and 115 overall.
\<close>

theorem scores_above_100_for_wood:
  "map_option res_scores (result_of (fst (calculate seeded_table accepts_all empty_database wood_1000))) =
     Some \<lparr>s_overall = 115, s_co2 = 190, s_energy = 75, s_materials = 80, s_grade = ''A+''\<rparr>"
proof -
  have "req_materials wood_1000 \<noteq> []" and "truthy_name (req_assessment_name wood_1000) = None"
    by (simp_all add: wood_1000_def truthy_name_def)
  from calculate_unnamed [OF this]
  show ?thesis by (simp add: result_of_def wood_scores)
qed

subsection \<open>A failure while saving\<close>

lemma save_assessment_refused_assessment:
  assumes "refuses db (InsertAssessment name (or_empty d) (totalCO2 st) (totalEnergy st) (totalMaterials st))"
  shows "save_assessment refuses db name d st mb = (db, None, [not_saved_warning])"
  using assms by (simp add: save_assessment_def database_run_def)

lemma save_materials_refused:
  "mb \<noteq> [] \<Longrightarrow> save_materials refuses_materials db aid mb = (db, False)"
  by (cases mb) (simp_all add: database_run_def refuses_materials_def material_statement_def)

lemma save_assessment_refused_materials:
  assumes "mb \<noteq> []"
  shows "save_assessment refuses_materials db name d st mb =
     (fst (execute db (InsertAssessment name (or_empty d) (totalCO2 st) (totalEnergy st) (totalMaterials st))),
      Some (lca_assessments_seq db + 1), [not_saved_warning])"
  using assms
  by (simp add: save_assessment_def database_run_def refuses_materials_def save_materials_refused Let_def)

lemma steel_loop:
  "calc_loop seeded_table (req_materials named_steel) =
     \<lparr>totalCO2 = 385, totalEnergy = 2450, totalMaterials = 100,
      materialBreakdown =
        [\<lparr>b_material_type = ''Steel'', b_category = ''Metals'', b_quantity = 100, b_unit = ''kg'',
          b_co2_impact = 185, b_energy_impact = 2450, b_transport_impact = 2000,
          b_total_impact = 4635\<rparr>],
      categoryBreakdown = [(''Metals'', \<lparr>c_co2 = 185, c_energy = 2450, c_materials = 100, c_count = 1\<rparr>)],
      warnings = []\<rparr>"
  by code_simp

text \<open>
  Claim C6. When saving a named calculation fails, the computed result is still returned,
  the returned assessment id is null and a warning is added. The result is returned and the
  warning added in every case; the id is null only when the insert of the assessment itself
  fails (\<open>save_assessment_refused_assessment\<close>). When the assessment is inserted and the
  insert of a material row fails, the response carries the id of the assessment row that
  was written, next to the warning that the assessment was not saved.
\<close>

theorem id_returned_although_materials_refused:
  "map_option (\<lambda>r. (assessment_id r, res_warnings r))
        (result_of (fst (calculate seeded_table refuses_materials empty_database named_steel))) =
      Some (Some 1, [not_saved_warning])
   \<and> map a_name (lca_assessments (snd (calculate seeded_table refuses_materials empty_database named_steel))) =
      [''Frame'']
   \<and> assessment_materials (snd (calculate seeded_table refuses_materials empty_database named_steel)) = []"
proof -
  let ?st = "calc_loop seeded_table (req_materials named_steel)"
  have m: "req_materials named_steel \<noteq> []"
    and n: "truthy_name (req_assessment_name named_steel) = Some ''Frame''"
    by (simp_all add: named_steel_def truthy_name_def)
  have "sort_by_impact (materialBreakdown ?st) \<noteq> []"
    using m calc_loop_breakdown_length [of seeded_table "req_materials named_steel"]
      sort_by_impact_length [of "materialBreakdown ?st"] by auto
  from calculate_named [OF m n save_assessment_refused_materials [OF this]]
  show ?thesis
    by (simp add: result_of_def steel_loop empty_database_def Let_def)
qed

section \<open>The fallback processing of materials\<close>

lemma falsy_cases: "falsy x \<longleftrightarrow> x = JsAbsent \<or> x = JsNumber 0 \<or> x = JsString []"
  by (cases x) (simp_all add: falsy_def)

lemma mf_quantity:
  "''quantity'' \<in> set (missing_fields m) \<longleftrightarrow>
     (p_quantity m = JsAbsent \<or> p_quantity m = JsNumber 0 \<or> p_quantity m = JsString [])"
  by (auto simp: missing_fields_def falsy_cases)

lemma mf_energy:
  "''energy_consumption'' \<in> set (missing_fields m) \<longleftrightarrow>
     (p_energy_consumption m = JsAbsent \<or> p_energy_consumption m = JsNumber 0 \<or>
      p_energy_consumption m = JsString [])"
  by (auto simp: missing_fields_def falsy_cases)

lemma mf_transport:
  "''transport_distance'' \<in> set (missing_fields m) \<longleftrightarrow>
     (p_transport_distance m = JsAbsent \<or> p_transport_distance m = JsNumber 0 \<or>
      p_transport_distance m = JsString [])"
  by (auto simp: missing_fields_def falsy_cases)

lemma estimateEnergyConsumption_rules:
  "estimateEnergyConsumption t =
     (if str_includes (toLowerCase t) ''steel'' then 24
      else if str_includes (toLowerCase t) ''aluminum'' then 154
      else if str_includes (toLowerCase t) ''plastic'' then 76
      else if str_includes (toLowerCase t) ''glass'' then 15
      else if str_includes (toLowerCase t) ''concrete'' then 1
      else if str_includes (toLowerCase t) ''wood'' then 5 / 2
      else if str_includes (toLowerCase t) ''paper'' then 20
      else 10)"
  by (simp add: estimateEnergyConsumption_def energyEstimates_def Let_def)


lemma flag_outlier_fields:
  "p_quantity (flag_outlier toNumber m p) = p_quantity p"
  "p_energy_consumption (flag_outlier toNumber m p) = p_energy_consumption p"
  "p_transport_distance (flag_outlier toNumber m p) = p_transport_distance p"
  "ai_imputed (flag_outlier toNumber m p) = ai_imputed p"
  by (simp_all add: flag_outlier_def)

lemma assign_category_fields:
  "p_quantity (assign_category m p) = p_quantity p"
  "p_energy_consumption (assign_category m p) = p_energy_consumption p"
  "p_transport_distance (assign_category m p) = p_transport_distance p"
  "ai_imputed (assign_category m p) = ai_imputed p"
  by (simp_all add: assign_category_def Let_def)

lemma impute_transport_fields:
  "p_quantity (impute_transport mf p) = p_quantity p"
  "p_energy_consumption (impute_transport mf p) = p_energy_consumption p"
  "p_transport_distance (impute_transport mf p) =
     (if ''transport_distance'' \<in> set mf then JsNumber 100 else p_transport_distance p)"
  "ai_imputed (impute_transport mf p) = (''transport_distance'' \<in> set mf \<or> ai_imputed p)"
  by (simp_all add: impute_transport_def)

lemma impute_energy_fields:
  "p_quantity (impute_energy mf m p) = p_quantity p"
  "p_energy_consumption (impute_energy mf m p) =
     (if ''energy_consumption'' \<in> set mf then JsNumber (estimateEnergyConsumption (p_material_type m))
      else p_energy_consumption p)"
  "p_transport_distance (impute_energy mf m p) = p_transport_distance p"
  "ai_imputed (impute_energy mf m p) = (''energy_consumption'' \<in> set mf \<or> ai_imputed p)"
  by (simp_all add: impute_energy_def)

lemma impute_quantity_fields:
  "p_quantity (impute_quantity mf p) = (if ''quantity'' \<in> set mf then JsNumber 1 else p_quantity p)"
  "p_energy_consumption (impute_quantity mf p) = p_energy_consumption p"
  "p_transport_distance (impute_quantity mf p) = p_transport_distance p"
  "ai_imputed (impute_quantity mf p) = (''quantity'' \<in> set mf \<or> ai_imputed p)"
  by (simp_all add: impute_quantity_def)

lemmas stage_fields =
  flag_outlier_fields assign_category_fields impute_transport_fields impute_energy_fields
  impute_quantity_fields

lemma process_material_quantity:
  "p_quantity (process_material toNumber m) =
     (if p_quantity m = JsAbsent \<or> p_quantity m = JsNumber 0 \<or> p_quantity m = JsString []
      then JsNumber 1 else p_quantity m)"
  by (simp add: process_material_def Let_def stage_fields mf_quantity)

lemma process_material_energy:
  "p_energy_consumption (process_material toNumber m) =
     (if p_energy_consumption m = JsAbsent \<or> p_energy_consumption m = JsNumber 0 \<or>
         p_energy_consumption m = JsString []
      then JsNumber (estimateEnergyConsumption (p_material_type m)) else p_energy_consumption m)"
  by (simp add: process_material_def Let_def stage_fields mf_energy)

lemma process_material_transport:
  "p_transport_distance (process_material toNumber m) =
     (if p_transport_distance m = JsAbsent \<or> p_transport_distance m = JsNumber 0 \<or>
         p_transport_distance m = JsString []
      then JsNumber 100 else p_transport_distance m)"
  by (simp add: process_material_def Let_def stage_fields mf_transport)

lemma process_material_imputed:
  "ai_imputed (process_material toNumber m) \<longleftrightarrow>
        (p_quantity m = JsAbsent \<or> p_quantity m = JsNumber 0 \<or> p_quantity m = JsString []) \<or>
        (p_energy_consumption m = JsAbsent \<or> p_energy_consumption m = JsNumber 0 \<or>
         p_energy_consumption m = JsString []) \<or>
        (p_transport_distance m = JsAbsent \<or> p_transport_distance m = JsNumber 0 \<or>
         p_transport_distance m = JsString []) \<or>
        ai_imputed m"
  unfolding process_material_def Let_def stage_fields mf_quantity mf_energy mf_transport
  by blast

text \<open>
  Claim C7, as amended. In the fallback processing, for every material: a quantity that is
  missing, 0 or an empty text is imputed to 1, and any other quantity, a negative one
  included, is kept; an energy consumption that is missing, 0 or an empty text is estimated
  from the first keyword of steel 24, aluminum 154, plastic 76, glass 15, concrete 1, wood
  2.5, paper 20 that the lower-cased material type contains, 10 when it contains none; a
  transport distance that is missing, 0 or an empty text is imputed to 100; each of these
  imputations sets \<open>ai_imputed\<close>, and a material on which none takes place keeps the
  flag it came with.
\<close>

theorem fallback_imputation:
  "p_quantity (process_material toNumber m) =
     (if p_quantity m = JsAbsent \<or> p_quantity m = JsNumber 0 \<or> p_quantity m = JsString []
      then JsNumber 1 else p_quantity m)
   \<and> p_energy_consumption (process_material toNumber m) =
     (if p_energy_consumption m = JsAbsent \<or> p_energy_consumption m = JsNumber 0 \<or>
         p_energy_consumption m = JsString []
      then JsNumber (estimateEnergyConsumption (p_material_type m)) else p_energy_consumption m)
   \<and> p_transport_distance (process_material toNumber m) =
     (if p_transport_distance m = JsAbsent \<or> p_transport_distance m = JsNumber 0 \<or>
         p_transport_distance m = JsString []
      then JsNumber 100 else p_transport_distance m)
   \<and> (ai_imputed (process_material toNumber m) \<longleftrightarrow>
        (p_quantity m = JsAbsent \<or> p_quantity m = JsNumber 0 \<or> p_quantity m = JsString []) \<or>
        (p_energy_consumption m = JsAbsent \<or> p_energy_consumption m = JsNumber 0 \<or>
         p_energy_consumption m = JsString []) \<or>
        (p_transport_distance m = JsAbsent \<or> p_transport_distance m = JsNumber 0 \<or>
         p_transport_distance m = JsString []) \<or>
        ai_imputed m)
   \<and> estimateEnergyConsumption t =
     (if str_includes (toLowerCase t) ''steel'' then 24
      else if str_includes (toLowerCase t) ''aluminum'' then 154
      else if str_includes (toLowerCase t) ''plastic'' then 76
      else if str_includes (toLowerCase t) ''glass'' then 15
      else if str_includes (toLowerCase t) ''concrete'' then 1
      else if str_includes (toLowerCase t) ''wood'' then 5 / 2
      else if str_includes (toLowerCase t) ''paper'' then 20
      else 10)"
  using estimateEnergyConsumption_rules [of t] process_material_quantity [of toNumber m]
    process_material_energy [of toNumber m] process_material_transport [of toNumber m]
    process_material_imputed [of toNumber m]
  by blast

lemma negative_quantity_fields:
  "p_quantity negative_quantity = JsNumber (- 5)"
  "p_energy_consumption negative_quantity = JsNumber 1"
  "p_transport_distance negative_quantity = JsNumber 1"
  "ai_imputed negative_quantity = False"
  by (simp_all add: negative_quantity_def)

text \<open>
  Claim C7 as stated has a quantity of 0 or less imputed to 1. The quantity -5, given with
  an energy consumption and a transport distance on a material not flagged before, is kept
  and nothing is flagged as imputed.
\<close>

theorem negative_quantity_kept:
  "p_quantity negative_quantity = JsNumber (- 5)
   \<and> p_quantity (process_material (\<lambda>t. None) negative_quantity) = JsNumber (- 5)
   \<and> ai_imputed (process_material (\<lambda>t. None) negative_quantity) = False"
  by (simp add: process_material_quantity process_material_imputed negative_quantity_fields)

section \<open>The percentages of the categories\<close>

lemma update_absent: "map_of al k = None \<Longrightarrow> AList.update k v al = al @ [(k, v)]"
  by (induction al) (auto split: if_splits)

lemma ensure_category_co2:
  "(\<Sum>e\<leftarrow>ensure_category c cb. c_co2 (snd e)) = (\<Sum>e\<leftarrow>cb. c_co2 (snd e))"
  by (simp add: ensure_category_def update_absent split: option.splits)

lemma ensure_category_present: "c \<in> fst ` set (ensure_category c cb)"
  by (auto simp: ensure_category_def update_absent split: option.splits dest: map_of_SomeD intro: rev_image_eqI)

lemma map_entry_co2:
  "k \<in> fst ` set al \<Longrightarrow>
   (\<Sum>e\<leftarrow>AList.map_entry k (add_to_category co2 en q) al. c_co2 (snd e)) =
   (\<Sum>e\<leftarrow>al. c_co2 (snd e)) + co2"
  by (induction al) (auto simp: add_to_category_def)

lemma calc_step_category_co2:
  "\<exists>b. materialBreakdown (calc_step table st m) = materialBreakdown st @ [b]
     \<and> (\<Sum>e\<leftarrow>categoryBreakdown (calc_step table st m). c_co2 (snd e)) =
         (\<Sum>e\<leftarrow>categoryBreakdown st. c_co2 (snd e)) + b_co2_impact b"
  by (simp add: calc_step_def Let_def map_entry_co2 ensure_category_present ensure_category_co2
      split: prod.splits)

lemma foldl_calc_step_category_co2:
  assumes "(\<Sum>e\<leftarrow>categoryBreakdown st. c_co2 (snd e)) = (\<Sum>b\<leftarrow>materialBreakdown st. b_co2_impact b)"
  shows "(\<Sum>e\<leftarrow>categoryBreakdown (foldl (calc_step table) st ms). c_co2 (snd e)) =
         (\<Sum>b\<leftarrow>materialBreakdown (foldl (calc_step table) st ms). b_co2_impact b)"
  using assms
proof (induction ms arbitrary: st)
  case Nil
  then show ?case by simp
next
  case (Cons m ms)
  from calc_step_category_co2 [of table st m] obtain b where
    "materialBreakdown (calc_step table st m) = materialBreakdown st @ [b]"
    "(\<Sum>e\<leftarrow>categoryBreakdown (calc_step table st m). c_co2 (snd e)) =
         (\<Sum>e\<leftarrow>categoryBreakdown st. c_co2 (snd e)) + b_co2_impact b"
    by blast
  with Cons.prems have "(\<Sum>e\<leftarrow>categoryBreakdown (calc_step table st m). c_co2 (snd e)) =
      (\<Sum>b\<leftarrow>materialBreakdown (calc_step table st m). b_co2_impact b)"
    by simp
  from Cons.IH [OF this] show ?case by simp
qed

lemma category_co2_is_material_co2:
  "(\<Sum>e\<leftarrow>categoryBreakdown (calc_loop table ms). c_co2 (snd e)) =
   (\<Sum>b\<leftarrow>materialBreakdown (calc_loop table ms). b_co2_impact b)"
  unfolding calc_loop_def
  by (rule foldl_calc_step_category_co2) (simp add: initial_state_def)

lemma sum_list_split_co2_transport:
  fixes f g :: "'a \<Rightarrow> rat"
  shows "(\<Sum>b\<leftarrow>xs. f b + (1 / 10) * g b) = (\<Sum>b\<leftarrow>xs. f b) + (1 / 10) * (\<Sum>b\<leftarrow>xs. g b)"
  by (induction xs) (simp_all add: algebra_simps)

lemma sum_list_shares:
  "(\<Sum>e\<leftarrow>cb. share grand (snd e)) = (\<Sum>e\<leftarrow>cb. c_co2 (snd e)) / grand * 100"
  by (induction cb) (simp_all add: share_def algebra_simps add_divide_distrib)

lemma round2_close: "round2 x \<le> x + 1 / 200 \<and> x - 1 / 200 < round2 x"
proof -
  have "of_int \<lfloor>x * 100 + 1 / 2\<rfloor> \<le> x * 100 + 1 / 2" by (rule of_int_floor_le)
  moreover have "x * 100 + 1 / 2 < of_int \<lfloor>x * 100 + 1 / 2\<rfloor> + 1" by linarith
  ultimately show ?thesis by (simp add: round2_def Math_round_def field_simps)
qed

lemma sum_list_round2_bound:
  "(\<Sum>e\<leftarrow>cb. round2 (share grand (snd e))) \<le> (\<Sum>e\<leftarrow>cb. share grand (snd e)) + of_nat (length cb) / 200"
proof (induction cb)
  case Nil
  then show ?case by simp
next
  case (Cons e cb)
  have "round2 (share grand (snd e)) \<le> share grand (snd e) + 1 / 200"
    using round2_close by blast
  with Cons show ?case by (simp add: add_divide_distrib)
qed

lemma transport_sum_positive:
  fixes f :: "'a \<Rightarrow> rat"
  assumes "\<forall>b\<in>set mb. 0 \<le> f b" and "\<exists>b\<in>set mb. 0 < f b"
  shows "0 < (\<Sum>b\<leftarrow>mb. f b)"
  using assms
proof (induction mb)
  case Nil
  then show ?case by simp
next
  case (Cons a mb)
  have nn: "0 \<le> (\<Sum>b\<leftarrow>mb. f b)" using Cons.prems(1) by (intro sum_list_nonneg) auto
  show ?case
  proof (cases "0 < f a")
    case True
    with nn show ?thesis by simp
  next
    case False
    with Cons.prems have "\<exists>b\<in>set mb. 0 < f b" and "\<forall>b\<in>set mb. 0 \<le> f b" and "0 \<le> f a" by auto
    with Cons.IH show ?thesis by (simp add: add_nonneg_pos)
  qed
qed

lemma reported_percentages:
  "grand \<noteq> 0 \<Longrightarrow>
   map ce_percentage (category_entries grand cb) = map (\<lambda>e. Some (round2 (share grand (snd e)))) cb"
  by (simp add: category_entries_def percentage_def share_def split_beta)

text \<open>
  Claim C10, as amended. The CO2 of the categories adds up to the CO2 impacts of the
  materials alone, while the denominator of every percentage is the total CO2, which
  includes a tenth of the transport impacts. Whenever the transport impacts add up to a
  positive amount (as they do when none is negative and one is positive) and the total CO2
  is positive, the percentages before rounding add up to strictly less than 100. Each
  reported percentage is that share rounded to two decimals, so the reported percentages
  add up to less than 100 plus 0.005 for each category.
\<close>

theorem category_shares_sum_below_100:
  assumes "0 < totalCO2 (calc_loop table ms)"
    and "0 < (\<Sum>b\<leftarrow>materialBreakdown (calc_loop table ms). b_transport_impact b)"
  shows "(\<Sum>e\<leftarrow>categoryBreakdown (calc_loop table ms). c_co2 (snd e)) =
           (\<Sum>b\<leftarrow>materialBreakdown (calc_loop table ms). b_co2_impact b)
     \<and> totalCO2 (calc_loop table ms) =
           (\<Sum>b\<leftarrow>materialBreakdown (calc_loop table ms). b_co2_impact b) +
           (1 / 10) * (\<Sum>b\<leftarrow>materialBreakdown (calc_loop table ms). b_transport_impact b)
     \<and> map ce_percentage
           (category_entries (totalCO2 (calc_loop table ms)) (categoryBreakdown (calc_loop table ms))) =
         map (\<lambda>e. Some (round2 (share (totalCO2 (calc_loop table ms)) (snd e))))
           (categoryBreakdown (calc_loop table ms))
     \<and> (\<Sum>e\<leftarrow>categoryBreakdown (calc_loop table ms). share (totalCO2 (calc_loop table ms)) (snd e)) < 100
     \<and> (\<Sum>e\<leftarrow>categoryBreakdown (calc_loop table ms).
           round2 (share (totalCO2 (calc_loop table ms)) (snd e))) <
         100 + of_nat (length (categoryBreakdown (calc_loop table ms))) / 200"
proof -
  let ?st = "calc_loop table ms"
  let ?T = "totalCO2 ?st"
  let ?C = "\<Sum>b\<leftarrow>materialBreakdown ?st. b_co2_impact b"
  let ?R = "\<Sum>b\<leftarrow>materialBreakdown ?st. b_transport_impact b"
  have cat: "(\<Sum>e\<leftarrow>categoryBreakdown ?st. c_co2 (snd e)) = ?C"
    by (rule category_co2_is_material_co2)
  have "?T = (\<Sum>b\<leftarrow>materialBreakdown ?st. b_co2_impact b + (1 / 10) * b_transport_impact b)"
    using calc_loop_totals [of table ms] by blast
  then have tot: "?T = ?C + (1 / 10) * ?R"
    by (simp only: sum_list_split_co2_transport)
  have rep: "map ce_percentage (category_entries ?T (categoryBreakdown ?st)) =
         map (\<lambda>e. Some (round2 (share ?T (snd e)))) (categoryBreakdown ?st)"
    using assms(1) by (simp add: reported_percentages)
  have "?C < ?T" using tot assms(2) by simp
  then have "?C / ?T * 100 < 100" using assms(1) by (simp add: field_simps)
  then have lt: "(\<Sum>e\<leftarrow>categoryBreakdown ?st. share ?T (snd e)) < 100"
    by (simp only: sum_list_shares cat)
  have "(\<Sum>e\<leftarrow>categoryBreakdown ?st. round2 (share ?T (snd e))) <
         100 + of_nat (length (categoryBreakdown ?st)) / 200"
    using sum_list_round2_bound [of ?T "categoryBreakdown ?st"] lt by linarith
  with cat tot rep lt show ?thesis by blast
qed

theorem category_shares_sum_below_100_witness:
  "0 < totalCO2 (calc_loop seeded_table (req_materials named_steel))
   \<and> 0 < (\<Sum>b\<leftarrow>materialBreakdown (calc_loop seeded_table (req_materials named_steel)). b_transport_impact b)
   \<and> (\<Sum>e\<leftarrow>categoryBreakdown (calc_loop seeded_table (req_materials named_steel)).
         share (totalCO2 (calc_loop seeded_table (req_materials named_steel))) (snd e)) < 100
   \<and> (\<Sum>e\<leftarrow>categoryBreakdown (calc_loop seeded_table (req_materials named_steel)).
         share (totalCO2 (calc_loop seeded_table (req_materials named_steel))) (snd e)) = 3700 / 77"
proof -
  have h1: "0 < totalCO2 (calc_loop seeded_table (req_materials named_steel))"
    by (simp add: steel_loop)
  have h2: "0 < (\<Sum>b\<leftarrow>materialBreakdown (calc_loop seeded_table (req_materials named_steel)). b_transport_impact b)"
    by (simp add: steel_loop)
  have v: "(\<Sum>e\<leftarrow>categoryBreakdown (calc_loop seeded_table (req_materials named_steel)).
         share (totalCO2 (calc_loop seeded_table (req_materials named_steel))) (snd e)) = 3700 / 77"
    by (simp add: steel_loop share_def)
  from category_shares_sum_below_100 [OF h1 h2] h1 h2 v show ?thesis by blast
qed

lemma tiny_transport_loop:
  "calc_loop seeded_table (req_materials tiny_transport) =
     \<lparr>totalCO2 = 185001 / 1000, totalEnergy = 2400, totalMaterials = 100,
      materialBreakdown =
        [\<lparr>b_material_type = ''Steel'', b_category = ''Metals'', b_quantity = 100, b_unit = ''kg'',
          b_co2_impact = 185, b_energy_impact = 2400, b_transport_impact = 1 / 100,
          b_total_impact = 258501 / 100\<rparr>],
      categoryBreakdown = [(''Metals'', \<lparr>c_co2 = 185, c_energy = 2400, c_materials = 100, c_count = 1\<rparr>)],
      warnings = []\<rparr>"
  by code_simp

lemma tiny_transport_percentage: "percentage 185 (185001 / 1000) = Some 100"
  by code_simp

lemma opposite_transports_loop:
  "calc_loop seeded_table (req_materials opposite_transports) =
     \<lparr>totalCO2 = 37 / 10, totalEnergy = 48, totalMaterials = 2,
      materialBreakdown =
        [\<lparr>b_material_type = ''Steel'', b_category = ''Metals'', b_quantity = 1, b_unit = ''kg'',
          b_co2_impact = 185 / 100, b_energy_impact = 24, b_transport_impact = 1,
          b_total_impact = 2685 / 100\<rparr>,
         \<lparr>b_material_type = ''Steel'', b_category = ''Metals'', b_quantity = 1, b_unit = ''kg'',
          b_co2_impact = 185 / 100, b_energy_impact = 24, b_transport_impact = - 1,
          b_total_impact = 2485 / 100\<rparr>],
      categoryBreakdown = [(''Metals'', \<lparr>c_co2 = 37 / 10, c_energy = 48, c_materials = 2, c_count = 2\<rparr>)],
      warnings = []\<rparr>"
  by code_simp

lemma opposite_transports_percentage: "percentage (37 / 10) (37 / 10) = Some 100"
  by code_simp

text \<open>
  Claim C10 as stated has the reported percentages add up to strictly less than 100 as soon
  as one material has a positive transport impact and the total CO2 is positive. For 100 kg
  of Steel carried over one metre, the transport impact is 0.01 and the total CO2 is
  185.001, both positive; the only category has the share 99.9994..., reported as 100. For
  two lots of 1 kg of Steel with the transport distances 10 and -10, the transport impacts
  are 1 and -1, the total CO2 is 3.7, and the only category has the share 100.
\<close>

theorem percentages_reach_100:
  "map b_transport_impact (materialBreakdown (calc_loop seeded_table (req_materials tiny_transport))) = [1 / 100]
   \<and> totalCO2 (calc_loop seeded_table (req_materials tiny_transport)) = 185001 / 1000
   \<and> map_option (\<lambda>r. map ce_percentage (category_breakdown r))
        (result_of (fst (calculate seeded_table accepts_all empty_database tiny_transport))) =
      Some [Some 100]
   \<and> map b_transport_impact (materialBreakdown (calc_loop seeded_table (req_materials opposite_transports))) =
      [1, - 1]
   \<and> totalCO2 (calc_loop seeded_table (req_materials opposite_transports)) = 37 / 10
   \<and> map_option (\<lambda>r. map ce_percentage (category_breakdown r))
        (result_of (fst (calculate seeded_table accepts_all empty_database opposite_transports))) =
      Some [Some 100]"
proof -
  have "req_materials tiny_transport \<noteq> []" and "truthy_name (req_assessment_name tiny_transport) = None"
    by (simp_all add: tiny_transport_def truthy_name_def)
  from calculate_unnamed [OF this]
  have a: "map_option (\<lambda>r. map ce_percentage (category_breakdown r))
        (result_of (fst (calculate seeded_table accepts_all empty_database tiny_transport))) =
      Some [Some 100]"
    by (simp add: result_of_def tiny_transport_loop category_entries_def tiny_transport_percentage)
  have "req_materials opposite_transports \<noteq> []"
    and "truthy_name (req_assessment_name opposite_transports) = None"
    by (simp_all add: opposite_transports_def truthy_name_def)
  from calculate_unnamed [OF this]
  have b: "map_option (\<lambda>r. map ce_percentage (category_breakdown r))
        (result_of (fst (calculate seeded_table accepts_all empty_database opposite_transports))) =
      Some [Some 100]"
    by (simp add: result_of_def opposite_transports_loop category_entries_def opposite_transports_percentage)
  from a b show ?thesis
    by (simp add: tiny_transport_loop opposite_transports_loop)
qed

section \<open>What the saved rows keep of the inputs\<close>

lemma save_materials_rows:
  "\<exists>rows. assessment_materials (fst (save_materials refuses db aid mb)) = assessment_materials db @ rows
     \<and> (\<forall>row\<in>set rows. am_energy_consumption row = 0 \<and> am_transport_distance row = 0)
     \<and> (snd (save_materials refuses db aid mb) \<longrightarrow> length rows = length mb)"
proof (induction mb arbitrary: db)
  case Nil
  then show ?case by simp
next
  case (Cons m mb)
  show ?case
  proof (cases "refuses db (material_statement aid m)")
    case True
    then show ?thesis by (simp add: database_run_def)
  next
    case False
    let ?db1 = "fst (execute db (material_statement aid m))"
    from Cons.IH [of ?db1] obtain rows where
      r: "assessment_materials (fst (save_materials refuses ?db1 aid mb)) = assessment_materials ?db1 @ rows"
        "\<forall>row\<in>set rows. am_energy_consumption row = 0 \<and> am_transport_distance row = 0"
        "snd (save_materials refuses ?db1 aid mb) \<longrightarrow> length rows = length mb"
      by blast
    obtain row where
      e: "assessment_materials ?db1 = assessment_materials db @ [row]"
        "am_energy_consumption row = 0" "am_transport_distance row = 0"
      by (simp add: material_statement_def Let_def)
    have s: "save_materials refuses db aid (m # mb) = save_materials refuses ?db1 aid mb"
      using False by (simp add: database_run_def split: prod.splits)
    show ?thesis
      unfolding s using r e by (intro exI [of _ "row # rows"]) simp
  qed
qed

lemma save_materials_accepts_all: "snd (save_materials accepts_all db aid mb)"
  by (induction mb arbitrary: db) (simp_all add: database_run_def accepts_all_def split: prod.splits)

lemma save_assessment_accepts_all:
  "save_assessment accepts_all db name d st mb =
     (fst (save_materials accepts_all
        (fst (execute db (InsertAssessment name (or_empty d) (totalCO2 st) (totalEnergy st) (totalMaterials st))))
        (lca_assessments_seq db + 1) mb),
      Some (lca_assessments_seq db + 1), [])"
  by (simp add: save_assessment_def database_run_def accepts_all_def [of db] Let_def case_prod_unfold
      save_materials_accepts_all)

lemma calculate_saved_rows:
  assumes "req_materials req \<noteq> []" and "truthy_name (req_assessment_name req) = Some name"
  shows "\<exists>rows. assessment_materials (snd (calculate table accepts_all db req)) =
                   assessment_materials db @ rows
     \<and> length rows = length (req_materials req)
     \<and> (\<forall>row\<in>set rows. am_energy_consumption row = 0 \<and> am_transport_distance row = 0)"
proof -
  let ?st = "calc_loop table (req_materials req)"
  let ?mb = "sort_by_impact (materialBreakdown ?st)"
  let ?db1 = "fst (execute db (InsertAssessment name (or_empty (req_description req)) (totalCO2 ?st)
                 (totalEnergy ?st) (totalMaterials ?st)))"
  let ?aid = "lca_assessments_seq db + 1"
  have db: "snd (calculate table accepts_all db req) = fst (save_materials accepts_all ?db1 ?aid ?mb)"
    using calculate_named [OF assms save_assessment_accepts_all] by simp
  from save_materials_rows [of accepts_all ?db1 ?aid ?mb] save_materials_accepts_all [of ?db1 ?aid ?mb]
  obtain rows where
    "assessment_materials (fst (save_materials accepts_all ?db1 ?aid ?mb)) = assessment_materials ?db1 @ rows"
    "\<forall>row\<in>set rows. am_energy_consumption row = 0 \<and> am_transport_distance row = 0"
    "length rows = length ?mb"
    by blast
  moreover have "assessment_materials ?db1 = assessment_materials db" by (simp add: Let_def)
  ultimately show ?thesis
    using db by (auto simp: sort_by_impact_length calc_loop_breakdown_length)
qed













lemma calc_step_derived_energy:
  "map (\<lambda>b. b_energy_impact b -
             b_quantity b * energy_factor (fst (calc_emission_factor table (b_material_type b))))
     (materialBreakdown (calc_step table st m)) =
   map (\<lambda>b. b_energy_impact b -
             b_quantity b * energy_factor (fst (calc_emission_factor table (b_material_type b))))
     (materialBreakdown st) @ [parseFloat_or0 (m_energy_consumption m)]"
  by (simp add: calc_step_def Let_def split: prod.splits)

lemma foldl_calc_step_derived_energy:
  "map (\<lambda>b. b_energy_impact b -
             b_quantity b * energy_factor (fst (calc_emission_factor table (b_material_type b))))
     (materialBreakdown (foldl (calc_step table) st ms)) =
   map (\<lambda>b. b_energy_impact b -
             b_quantity b * energy_factor (fst (calc_emission_factor table (b_material_type b))))
     (materialBreakdown st) @ map (\<lambda>m. parseFloat_or0 (m_energy_consumption m)) ms"
  by (induction ms arbitrary: st) (simp_all add: calc_step_derived_energy)

lemma energy_consumption_derivable:
  "map (\<lambda>b. b_energy_impact b -
             b_quantity b * energy_factor (fst (calc_emission_factor table (b_material_type b))))
     (materialBreakdown (calc_loop table ms)) =
   map (\<lambda>m. parseFloat_or0 (m_energy_consumption m)) ms"
  by (simp add: calc_loop_def foldl_calc_step_derived_energy initial_state_def)





section \<open>The stages of the factor lookup\<close>

lemma toLowerCase_char_idem: "toLowerCase_char (toLowerCase_char c) = toLowerCase_char c"
  by (simp add: toLowerCase_char_def)

lemma toLowerCase_idem: "toLowerCase (toLowerCase s) = toLowerCase s"
  by (simp add: toLowerCase_def toLowerCase_char_idem)

lemma toLowerCase_char_percent: "toLowerCase_char c = CHR ''%'' \<longleftrightarrow> c = CHR ''%''"
  by (auto simp: toLowerCase_char_def char_of_eq_iff take_bit_eq_mod)

lemma toLowerCase_char_underscore: "toLowerCase_char c = CHR ''_'' \<longleftrightarrow> c = CHR ''_''"
  by (auto simp: toLowerCase_char_def char_of_eq_iff take_bit_eq_mod)

lemma like_match_percent: "like_match [CHR ''%''] s"
  by (induction s) simp_all

lemma like_match_literal_prefix:
  assumes "CHR ''%'' \<notin> set ps" and "CHR ''_'' \<notin> set ps"
  shows "like_match (ps @ [CHR ''%'']) s \<longleftrightarrow> prefix (toLowerCase ps) (toLowerCase s)"
  using assms
proof (induction ps arbitrary: s)
  case Nil
  then show ?case by (simp add: like_match_percent toLowerCase_def)
next
  case (Cons p ps)
  then show ?case by (cases s) (auto simp: toLowerCase_def)
qed

lemma like_match_contains:
  assumes "CHR ''%'' \<notin> set ps" and "CHR ''_'' \<notin> set ps"
  shows "like_match (CHR ''%'' # ps @ [CHR ''%'']) s \<longleftrightarrow> sublist (toLowerCase ps) (toLowerCase s)"
proof (induction s)
  case Nil
  show ?case
    using like_match_literal_prefix [OF assms, of "[]"] by (simp add: toLowerCase_def)
next
  case (Cons c cs)
  have "like_match (CHR ''%'' # ps @ [CHR ''%'']) (c # cs) \<longleftrightarrow>
        like_match (ps @ [CHR ''%'']) (c # cs) \<or> like_match (CHR ''%'' # ps @ [CHR ''%'']) cs"
    by simp
  also have "\<dots> \<longleftrightarrow> prefix (toLowerCase ps) (toLowerCase (c # cs)) \<or>
                   sublist (toLowerCase ps) (toLowerCase cs)"
    using like_match_literal_prefix [OF assms, of "c # cs"] Cons.IH by simp
  also have "\<dots> \<longleftrightarrow> sublist (toLowerCase ps) (toLowerCase (c # cs))"
    by (simp add: toLowerCase_def sublist_Cons_right)
  finally show ?case .
qed

lemma partial_pattern:
  assumes "CHR ''%'' \<notin> set t" and "CHR ''_'' \<notin> set t"
  shows "like_match (toLowerCase (CHR ''%'' # t @ [CHR ''%''])) (toLowerCase s) \<longleftrightarrow>
         sublist (toLowerCase t) (toLowerCase s)"
proof -
  have p: "toLowerCase (CHR ''%'' # t @ [CHR ''%'']) = CHR ''%'' # toLowerCase t @ [CHR ''%'']"
    by (simp add: toLowerCase_def toLowerCase_char_percent)
  have "CHR ''%'' \<notin> set (toLowerCase t)" and "CHR ''_'' \<notin> set (toLowerCase t)"
    using assms
    by (auto simp: toLowerCase_def) (metis toLowerCase_char_percent, metis toLowerCase_char_underscore)
  from like_match_contains [OF this, of "toLowerCase s"] show ?thesis
    by (simp add: p toLowerCase_idem)
qed

lemma get_exact_found:
  assumes "\<exists>r\<in>set table. toLowerCase (ef_material_type r) = toLowerCase t"
  shows "\<exists>r\<in>set table. toLowerCase (ef_material_type r) = toLowerCase t \<and> get_exact table t = Some r"
proof -
  from assms have "get_exact table t \<noteq> None"
    by (auto simp: get_exact_def find_None_iff)
  then obtain r where r: "get_exact table t = Some r" by blast
  then have "r \<in> set table \<and> toLowerCase (ef_material_type r) = toLowerCase t"
    unfolding get_exact_def find_Some_iff by auto
  with r show ?thesis by blast
qed

lemma get_exact_absent:
  assumes "\<not> (\<exists>r\<in>set table. toLowerCase (ef_material_type r) = toLowerCase t)"
  shows "get_exact table t = None"
  using assms by (simp add: get_exact_def find_None_iff)

lemma get_partial_found:
  assumes "CHR ''%'' \<notin> set t" and "CHR ''_'' \<notin> set t"
    and "\<exists>r\<in>set table. sublist (toLowerCase t) (toLowerCase (ef_material_type r))"
  shows "\<exists>r\<in>set table. sublist (toLowerCase t) (toLowerCase (ef_material_type r))
           \<and> (\<forall>r'\<in>set table. sublist (toLowerCase t) (toLowerCase (ef_material_type r')) \<longrightarrow>
                 ef_material_type r \<le> ef_material_type r')
           \<and> get_partial table t = Some r"
proof -
  let ?ms = "filter (\<lambda>r. sublist (toLowerCase t) (toLowerCase (ef_material_type r))) table"
  have g: "get_partial table t = (case sort_key ef_material_type ?ms of [] \<Rightarrow> None | r # rest \<Rightarrow> Some r)"
    by (simp add: get_partial_def partial_pattern [OF assms(1,2)])
  from assms(3) have "?ms \<noteq> []" by (simp add: filter_empty_conv)
  then have "sort_key ef_material_type ?ms \<noteq> []"
    by (metis length_sort length_0_conv)
  then obtain h rest where h: "sort_key ef_material_type ?ms = h # rest"
    by (cases "sort_key ef_material_type ?ms") auto
  from sort_key_head_least [OF h] have "h \<in> set ?ms" and "\<forall>x\<in>set ?ms. ef_material_type h \<le> ef_material_type x"
    by auto
  then show ?thesis using g h by auto
qed

lemma get_partial_absent:
  assumes "CHR ''%'' \<notin> set t" and "CHR ''_'' \<notin> set t"
    and "\<not> (\<exists>r\<in>set table. sublist (toLowerCase t) (toLowerCase (ef_material_type r)))"
  shows "get_partial table t = None"
proof -
  have "filter (\<lambda>r. sublist (toLowerCase t) (toLowerCase (ef_material_type r))) table = []"
    using assms(3) by (simp add: filter_empty_conv)
  then show ?thesis by (simp add: get_partial_def partial_pattern [OF assms(1,2)])
qed

text \<open>
  Claim C2, as amended. The calculation looks a material type up in two stages: a row whose
  material type equals the input without regard to case gives the factors; otherwise the
  defaults (CO2 1.0, energy 10.0, transport 0.05, category Unknown) are used and the warning
  \<open>Unknown material: <type>. Using estimated factors.\<close> is added. The enrichment of
  uploaded data has three stages: the same exact match; otherwise, for an input without the
  wildcard characters \<open>%\<close> and \<open>_\<close>, a row whose material type contains the input
  without regard to case (the other direction is not tried), and among these rows one with
  the least material type; and only otherwise the same defaults, with the flag
  \<open>estimated\<close> and the warning \<open>No emission factor found for "<type>". Using
  estimated values.\<close>
\<close>

theorem lookup_stages_of_both_paths:
  assumes "CHR ''%'' \<notin> set t" and "CHR ''_'' \<notin> set t"
  shows
  "(if \<exists>r\<in>set table. toLowerCase (ef_material_type r) = toLowerCase t
    then \<exists>r\<in>set table. toLowerCase (ef_material_type r) = toLowerCase t
           \<and> calc_emission_factor table t = (factors_of r, [])
           \<and> enrich_emission_factor table t = (factors_of r, False, None)
    else calc_emission_factor table t =
           (\<lparr>co2_factor = 1, energy_factor = 10, transport_factor = 5 / 100, category = ''Unknown''\<rparr>,
            [''Unknown material: '' @ t @ ''. Using estimated factors.''])
       \<and> (if \<exists>r\<in>set table. sublist (toLowerCase t) (toLowerCase (ef_material_type r))
          then \<exists>r\<in>set table. sublist (toLowerCase t) (toLowerCase (ef_material_type r))
                 \<and> (\<forall>r'\<in>set table. sublist (toLowerCase t) (toLowerCase (ef_material_type r')) \<longrightarrow>
                       ef_material_type r \<le> ef_material_type r')
                 \<and> enrich_emission_factor table t = (factors_of r, False, None)
          else enrich_emission_factor table t =
                 (\<lparr>co2_factor = 1, energy_factor = 10, transport_factor = 5 / 100, category = ''Unknown''\<rparr>,
                  True, Some (''No emission factor found for \"'' @ t @ ''\". Using estimated values.''))))"
proof (cases "\<exists>r\<in>set table. toLowerCase (ef_material_type r) = toLowerCase t")
  case True
  from get_exact_found [OF True] obtain r where
    "r \<in> set table" "toLowerCase (ef_material_type r) = toLowerCase t" "get_exact table t = Some r"
    by blast
  then have "\<exists>r\<in>set table. toLowerCase (ef_material_type r) = toLowerCase t
           \<and> calc_emission_factor table t = (factors_of r, [])
           \<and> enrich_emission_factor table t = (factors_of r, False, None)"
    by (auto simp: calc_emission_factor_def enrich_emission_factor_def)
  with True show ?thesis by simp
next
  case False
  note ex = get_exact_absent [OF False]
  have calc: "calc_emission_factor table t =
           (\<lparr>co2_factor = 1, energy_factor = 10, transport_factor = 5 / 100, category = ''Unknown''\<rparr>,
            [''Unknown material: '' @ t @ ''. Using estimated factors.''])"
    by (simp add: calc_emission_factor_def ex default_factors_def unknown_warning_def)
  show ?thesis
  proof (cases "\<exists>r\<in>set table. sublist (toLowerCase t) (toLowerCase (ef_material_type r))")
    case True
    from get_partial_found [OF assms True] obtain r where
      "r \<in> set table" "sublist (toLowerCase t) (toLowerCase (ef_material_type r))"
      "\<forall>r'\<in>set table. sublist (toLowerCase t) (toLowerCase (ef_material_type r')) \<longrightarrow>
                 ef_material_type r \<le> ef_material_type r'"
      "get_partial table t = Some r"
      by blast
    then have "\<exists>r\<in>set table. sublist (toLowerCase t) (toLowerCase (ef_material_type r))
                 \<and> (\<forall>r'\<in>set table. sublist (toLowerCase t) (toLowerCase (ef_material_type r')) \<longrightarrow>
                       ef_material_type r \<le> ef_material_type r')
                 \<and> enrich_emission_factor table t = (factors_of r, False, None)"
      by (auto simp: enrich_emission_factor_def ex)
    with True calc \<open>\<not> (\<exists>r\<in>set table. toLowerCase (ef_material_type r) = toLowerCase t)\<close>
    show ?thesis by simp
  next
    case nomatch: False
    have "enrich_emission_factor table t =
                 (\<lparr>co2_factor = 1, energy_factor = 10, transport_factor = 5 / 100, category = ''Unknown''\<rparr>,
                  True, Some (''No emission factor found for \"'' @ t @ ''\". Using estimated values.''))"
      by (simp add: enrich_emission_factor_def ex get_partial_absent [OF assms nomatch]
          default_factors_def no_factor_warning_def)
    with nomatch calc \<open>\<not> (\<exists>r\<in>set table. toLowerCase (ef_material_type r) = toLowerCase t)\<close>
    show ?thesis by simp
  qed
qed

lemma pet_no_exact:
  "\<not> (\<exists>r\<in>set seeded_table. toLowerCase (ef_material_type r) = toLowerCase ''PET'')"
  by code_simp

lemma pet_contained:
  "\<exists>r\<in>set seeded_table. sublist (toLowerCase ''PET'') (toLowerCase (ef_material_type r))"
  by code_simp

lemma pet_enrich:
  "enrich_emission_factor seeded_table ''PET'' =
     (\<lparr>co2_factor = 225 / 100, energy_factor = 76, transport_factor = 5 / 100, category = ''Plastics''\<rparr>,
      False, None)"
  by code_simp

theorem lookup_stages_of_both_paths_witness:
  "CHR ''%'' \<notin> set ''PET'' \<and> CHR ''_'' \<notin> set ''PET''
   \<and> calc_emission_factor seeded_table ''PET'' =
       (\<lparr>co2_factor = 1, energy_factor = 10, transport_factor = 5 / 100, category = ''Unknown''\<rparr>,
        [''Unknown material: PET. Using estimated factors.''])
   \<and> (\<exists>r\<in>set seeded_table. sublist (toLowerCase ''PET'') (toLowerCase (ef_material_type r))
         \<and> enrich_emission_factor seeded_table ''PET'' = (factors_of r, False, None))
   \<and> category (fst (enrich_emission_factor seeded_table ''PET'')) = ''Plastics''"
proof -
  have h1: "CHR ''%'' \<notin> set ''PET''" and h2: "CHR ''_'' \<notin> set ''PET''" by simp_all
  from lookup_stages_of_both_paths [OF h1 h2, of seeded_table] pet_no_exact pet_contained
  have "calc_emission_factor seeded_table ''PET'' =
       (\<lparr>co2_factor = 1, energy_factor = 10, transport_factor = 5 / 100, category = ''Unknown''\<rparr>,
        [''Unknown material: '' @ ''PET'' @ ''. Using estimated factors.''])
   \<and> (\<exists>r\<in>set seeded_table. sublist (toLowerCase ''PET'') (toLowerCase (ef_material_type r))
         \<and> enrich_emission_factor seeded_table ''PET'' = (factors_of r, False, None))"
    by (simp only: if_True if_False) blast
  moreover have "category (fst (enrich_emission_factor seeded_table ''PET'')) = ''Plastics''"
    by (simp add: pet_enrich)
  ultimately show ?thesis using h1 h2 by simp
qed

lemma stainless_calc:
  "calc_emission_factor seeded_table ''Stainless Steel'' =
     (default_factors, [unknown_warning ''Stainless Steel''])"
  by code_simp

lemma stainless_enrich:
  "enrich_emission_factor seeded_table ''Stainless Steel'' =
     (default_factors, True, Some (no_factor_warning ''Stainless Steel''))"
  by code_simp

lemma stainless_spec:
  "spec_three_stage_lookup seeded_table ''Stainless Steel'' =
     (\<lparr>co2_factor = 185 / 100, energy_factor = 24, transport_factor = 1 / 10, category = ''Metals''\<rparr>, [])"
  by code_simp

text \<open>
  Claim C2 as stated has every lookup try a substring match in both directions before the
  defaults. The seeded table has the entry Steel, which the input Stainless Steel contains:
  the lookup in the words of the claim finds the factors of Steel, category Metals, with no
  warning, while the calculation and the enrichment both use the defaults, category Unknown.
\<close>

theorem stainless_steel_gets_defaults:
  "category (fst (spec_three_stage_lookup seeded_table ''Stainless Steel'')) = ''Metals''
   \<and> category (fst (calc_emission_factor seeded_table ''Stainless Steel'')) = ''Unknown''
   \<and> category (fst (enrich_emission_factor seeded_table ''Stainless Steel'')) = ''Unknown''
   \<and> snd (spec_three_stage_lookup seeded_table ''Stainless Steel'') = []
   \<and> snd (calc_emission_factor seeded_table ''Stainless Steel'') =
       [''Unknown material: Stainless Steel. Using estimated factors.'']"
  by (simp add: stainless_calc stainless_enrich stainless_spec default_factors_def unknown_warning_def)

end
